theory Spec2Isabelle
  imports Main "HOL-Library.Word"
begin

unbundle bit_operations_syntax

section \<open>Basic types (Utils/Types.h)\<close>

type_synonym u8 = "8 word"
type_synonym u16 = "16 word"
type_synonym u32 = "32 word"
type_synonym u64 = "64 word"
type_synonym Hash = "64 word"

text \<open>
  \<open>Value\<close> is \<open>i16\<close> and \<open>Depth\<close> is \<open>i32\<close>. Both are modelled as \<open>int\<close>;
  every store of a wider result into a \<open>Value\<close> goes through \<open>to_Value\<close>, the
  two's-complement truncation to 16 bits.
\<close>

definition to_Value :: "int \<Rightarrow> int" where
  "to_Value x = sint (word_of_int x :: 16 word)"

section \<open>Search constants (Engine/Scores.h)\<close>

definition MAX_DEPTH :: int where "MAX_DEPTH = 99"
definition INF_score :: int where "INF_score = 31000"
definition MATE :: int where "MATE = 30000"

definition isMateValue :: "int \<Rightarrow> bool" where
  "isMateValue v \<longleftrightarrow>
     (v > MATE - MAX_DEPTH * 2 \<and> v \<le> MATE) \<or> (v < MAX_DEPTH * 2 - MATE \<and> v \<ge> - MATE)"

section \<open>Transposition table (Engine/TranspositionTable.h)\<close>

text \<open>The enumerators of \<open>EntryType : u8\<close>.\<close>

definition NON_PV :: u8 where "NON_PV = 0"
definition PV :: u8 where "PV = 1"
definition EXACT :: u8 where "EXACT = 2"
definition BETA :: u8 where "BETA = 4"
definition ALPHA :: u8 where "ALPHA = 6"

record TableEntry =
  e_hash :: Hash
  e_move :: u16
  e_value :: int
  e_age :: u16
  e_depth :: u8
  e_type :: u8

definition isPvNode :: "TableEntry \<Rightarrow> bool" where
  "isPvNode e \<longleftrightarrow> (e_type e AND PV) \<noteq> 0"

definition getBoundType :: "TableEntry \<Rightarrow> u8" where
  "getBoundType e = e_type e AND 6"

record TableEntryCluster =
  mainEntry :: TableEntry
  auxEntry :: TableEntry

record TranspositionTable =
  s_table :: "nat \<Rightarrow> TableEntryCluster"
  s_tableSize :: nat
  s_rootAge :: u16

text \<open>\<open>TranspositionTable::init\<close> clears the whole table with \<open>memset(s_table, 0, ...)\<close>.\<close>

definition zero_entry :: TableEntry where
  "zero_entry = \<lparr>e_hash = 0, e_move = 0, e_value = 0, e_age = 0, e_depth = 0, e_type = 0\<rparr>"

definition tt_init :: "nat \<Rightarrow> TranspositionTable" where
  "tt_init n = \<lparr>s_table = (\<lambda>_. \<lparr>mainEntry = zero_entry, auxEntry = zero_entry\<rparr>),
                s_tableSize = n, s_rootAge = 0\<rparr>"

definition setRootAge :: "u16 \<Rightarrow> TranspositionTable \<Rightarrow> TranspositionTable" where
  "setRootAge a tt = tt\<lparr>s_rootAge := a\<rparr>"

definition probe :: "TranspositionTable \<Rightarrow> Hash \<Rightarrow> TableEntry option" where
  "probe tt h =
     (let entry = s_table tt (unat h mod s_tableSize tt) in
      if e_hash (mainEntry entry) = h then Some (mainEntry entry)
      else if e_hash (auxEntry entry) = h then Some (auxEntry entry)
      else None)"

text \<open>
  The replacement test of \<open>tryRecord\<close>. In \<open>(type & 0x110) <= mainEntry.getBoundType()\<close>
  both operands are promoted to \<open>int\<close>; the mask is the hexadecimal literal \<open>0x110\<close>
  of the source (272), not the binary \<open>0b110\<close> used by \<open>getBoundType\<close>.
\<close>

definition replaces_main :: "u16 \<Rightarrow> TableEntry \<Rightarrow> u8 \<Rightarrow> u8 \<Rightarrow> bool" where
  "replaces_main rootAge m ty d \<longleftrightarrow>
     e_type m = 0
     \<or> e_age m \<le> rootAge
     \<or> d > e_depth m
     \<or> (d = e_depth m
        \<and> (ty AND PV) \<ge> (e_type m AND PV)
        \<and> (uint ty AND 0x110) \<le> uint (getBoundType m))"

definition fix_mate_on_write :: "int \<Rightarrow> int \<Rightarrow> int" where
  "fix_mate_on_write v ply =
     (if isMateValue v then
        (if v > MATE - 2 * MAX_DEPTH then to_Value (v + ply) else to_Value (v - ply))
      else v)"

definition tryRecord_cluster ::
  "u16 \<Rightarrow> u8 \<Rightarrow> Hash \<Rightarrow> u16 \<Rightarrow> int \<Rightarrow> u16 \<Rightarrow> u8 \<Rightarrow> int \<Rightarrow> TableEntryCluster \<Rightarrow> TableEntryCluster"
where
  "tryRecord_cluster rootAge ty h mv v a d ply entry =
     (if replaces_main rootAge (mainEntry entry) ty d then
        entry\<lparr>mainEntry := \<lparr>e_hash = h, e_move = mv, e_value = fix_mate_on_write v ply,
                              e_age = a, e_depth = d, e_type = ty\<rparr>\<rparr>
      else if e_hash (mainEntry entry) \<noteq> h then
        entry\<lparr>auxEntry := \<lparr>e_hash = h, e_move = mv, e_value = v,
                             e_age = a, e_depth = d, e_type = ty\<rparr>\<rparr>
      else entry)"

definition tryRecord ::
  "u8 \<Rightarrow> Hash \<Rightarrow> u16 \<Rightarrow> int \<Rightarrow> u16 \<Rightarrow> u8 \<Rightarrow> int \<Rightarrow> TranspositionTable \<Rightarrow> TranspositionTable"
where
  "tryRecord ty h mv v a d ply tt =
     (let i = unat h mod s_tableSize tt in
      tt\<lparr>s_table := (s_table tt)(i := tryRecord_cluster (s_rootAge tt) ty h mv v a d ply (s_table tt i))\<rparr>)"

section \<open>The search's use of the table (Engine/Search.cpp)\<close>

datatype NodeType = NodeType_NON_PV | NodeType_PV

definition NodeType_u8 :: "NodeType \<Rightarrow> u8" where
  "NodeType_u8 nt = (case nt of NodeType_NON_PV \<Rightarrow> 0 | NodeType_PV \<Rightarrow> 1)"

text \<open>
  \<open>entryType\<close> starts as \<open>ALPHA\<close>, becomes \<open>EXACT\<close> when a move raises alpha and
  \<open>BETA\<close> on a cut-off; the recorded type is \<open>EntryType(u8(entryType) | u8(NT))\<close>.
\<close>

definition search_entryType :: "bool \<Rightarrow> bool \<Rightarrow> u8" where
  "search_entryType raisedAlpha betaCut =
     (if betaCut then BETA else if raisedAlpha then EXACT else ALPHA)"

definition recorded_type :: "bool \<Rightarrow> bool \<Rightarrow> NodeType \<Rightarrow> u8" where
  "recorded_type raisedAlpha betaCut nt = search_entryType raisedAlpha betaCut OR NodeType_u8 nt"

record tt_write =
  w_raisedAlpha :: bool
  w_betaCut :: bool
  w_nt :: NodeType
  w_hash :: Hash
  w_move :: u16
  w_value :: int
  w_age :: u16
  w_depth :: u8
  w_ply :: int

definition search_record :: "tt_write \<Rightarrow> TranspositionTable \<Rightarrow> TranspositionTable" where
  "search_record w tt =
     tryRecord (recorded_type (w_raisedAlpha w) (w_betaCut w) (w_nt w))
       (w_hash w) (w_move w) (w_value w) (w_age w) (w_depth w) (w_ply w) tt"

text \<open>
  What one \<open>rootSearch\<close> does to the table: it sets the root age to the move count of
  the root board, then \<open>search\<close> records its nodes one after the other. The table is
  initialised once and never cleared, so the searches of a game act on it in sequence.
\<close>

record root_search =
  rs_moveCount :: u16
  rs_writes :: "tt_write list"

definition rootSearch_table :: "root_search \<Rightarrow> TranspositionTable \<Rightarrow> TranspositionTable" where
  "rootSearch_table rs tt = fold search_record (rs_writes rs) (setRootAge (rs_moveCount rs) tt)"

definition searches_table :: "root_search list \<Rightarrow> TranspositionTable \<Rightarrow> TranspositionTable" where
  "searches_table rss tt = fold rootSearch_table rss tt"

text \<open>The mate-distance fix applied by \<open>search\<close> to a probed entry's value.\<close>

definition fix_mate_on_probe :: "int \<Rightarrow> int \<Rightarrow> int" where
  "fix_mate_on_probe v ply =
     (if isMateValue v then
        (if v > MATE - 2 * MAX_DEPTH then to_Value (v - ply)
         else if v < - MATE + 2 * MAX_DEPTH then to_Value (v + ply)
         else v)
      else v)"

text \<open>
  The table cut-off of \<open>search\<close>: \<open>Some v\<close> when the node returns \<open>v\<close> from the table,
  \<open>None\<close> when the search goes on.
\<close>

definition tt_cutoff :: "NodeType \<Rightarrow> TableEntry \<Rightarrow> int \<Rightarrow> int \<Rightarrow> int \<Rightarrow> int \<Rightarrow> int option" where
  "tt_cutoff nt entry alpha beta depth ply =
     (if uint (e_depth entry) \<ge> depth \<and> ply \<noteq> 0 \<and> (isPvNode entry \<or> nt \<noteq> NodeType_PV) then
        (let v = fix_mate_on_probe (e_value entry) ply in
         if getBoundType entry = EXACT then Some v
         else if getBoundType entry = ALPHA then (if v \<le> alpha then Some alpha else None)
         else if getBoundType entry = BETA then (if v \<ge> beta then Some beta else None)
         else None)
      else None)"

text \<open>C++ integer division truncates towards zero.\<close>

definition cdiv :: "int \<Rightarrow> int \<Rightarrow> int" where
  "cdiv a b = sgn a * sgn b * (\<bar>a\<bar> div \<bar>b\<bar>)"

subsection \<open>Null-move pruning\<close>

definition MIN_NULLMOVE_DEPTH :: int where "MIN_NULLMOVE_DEPTH = 2"
definition NULLMOVE_DEPTH_REDUCTION_BASE :: int where "NULLMOVE_DEPTH_REDUCTION_BASE = 3"
definition MIN_NULLMOVE_VERIFICATION_DEPTH :: int where "MIN_NULLMOVE_VERIFICATION_DEPTH = 5"
definition NULLMOVE_HIGH_DEPTH_DENOMINATOR :: int where "NULLMOVE_HIGH_DEPTH_DENOMINATOR = 5"
definition NULLMOVE_BETA_DIFFERENCE_DENOMINATOR :: int where
  "NULLMOVE_BETA_DIFFERENCE_DENOMINATOR = 300"

text \<open>The reduction \<open>R\<close> of the null-move block, with its clamp \<open>if (R < 0) R = 0\<close>.\<close>

definition null_move_R :: "int \<Rightarrow> int \<Rightarrow> int \<Rightarrow> int" where
  "null_move_R depth staticEval beta =
     (let R = NULLMOVE_DEPTH_REDUCTION_BASE
              + cdiv (depth - MIN_NULLMOVE_DEPTH) NULLMOVE_HIGH_DEPTH_DENOMINATOR
              + max (cdiv (staticEval - beta) NULLMOVE_BETA_DIFFERENCE_DENOMINATOR) 0
      in if R < 0 then 0 else R)"

text \<open>The margins \<open>FUTILITY_MARGIN[depth]\<close>, read for \<open>1 \<le> depth \<le> 4\<close> only.\<close>

definition FUTILITY_MARGIN :: "int \<Rightarrow> int" where
  "FUTILITY_MARGIN depth = [0, 50, 200, 400, 700] ! nat depth"

text \<open>
  The block \<open>PRUNINGS AND REDUCTIONS\<close> of \<open>search<NT>\<close>, reached with
  \<open>depth > 0\<close>: under the guard \<open>NT != PV && !isInCheck\<close> the futility tests come
  first and the null move after them. The recursive calls are parameters:
  \<open>quiescence_here a b p\<close> is the value of \<open>quiescence(board, a, b, p, 0)\<close>,
  \<open>search_after_null a b d p\<close> the value of \<open>search<NON_PV>(board, a, b, d, p)\<close> on the
  board after \<open>makeNullMove\<close>, \<open>search_here a b d p\<close> its value on the unchanged board;
  \<open>mustStop\<close> is \<open>g_mustStop\<close> as read after the null-move search. The result is
  \<open>Some v\<close> when the node returns \<open>v\<close> from this block and \<open>None\<close> when the search
  falls through to the move loop.
\<close>

definition prunings ::
  "(int \<Rightarrow> int \<Rightarrow> int \<Rightarrow> int) \<Rightarrow> (int \<Rightarrow> int \<Rightarrow> int \<Rightarrow> int \<Rightarrow> int)
   \<Rightarrow> (int \<Rightarrow> int \<Rightarrow> int \<Rightarrow> int \<Rightarrow> int) \<Rightarrow> bool
   \<Rightarrow> NodeType \<Rightarrow> bool \<Rightarrow> bool \<Rightarrow> int \<Rightarrow> int \<Rightarrow> int \<Rightarrow> int \<Rightarrow> int \<Rightarrow> int option"
where
  "prunings quiescence_here search_after_null search_here mustStop nt inCheck nonPawns
       staticEval alpha beta depth ply =
     (if nt \<noteq> NodeType_PV \<and> \<not> inCheck then
        (if depth \<le> 4 \<and> staticEval \<le> alpha - FUTILITY_MARGIN depth
           then Some (quiescence_here alpha beta ply)
         else if depth \<le> 4 \<and> staticEval \<ge> beta + FUTILITY_MARGIN depth
           then Some beta
         else if staticEval \<ge> beta \<and> depth \<ge> MIN_NULLMOVE_DEPTH \<and> nonPawns then
           (let R = null_move_R depth staticEval beta;
                tmp = to_Value (- search_after_null (to_Value (- beta)) (to_Value (- beta + 1))
                                    (depth - R) (ply + 1))
            in if mustStop then Some alpha
               else if tmp \<ge> beta then
                 (let tmp' = (if isMateValue tmp then beta else tmp) in
                  if depth \<ge> MIN_NULLMOVE_VERIFICATION_DEPTH then
                    (let verification = search_here (to_Value (beta - 1)) beta (depth - R) ply in
                     if verification \<ge> beta then Some tmp' else None)
                  else Some tmp')
               else None)
         else None)
      else None)"

text \<open>The reduction as the specification words it, with \<open>min(0, \<dots>)\<close>.\<close>

definition spec_null_move_R :: "int \<Rightarrow> int \<Rightarrow> int \<Rightarrow> int" where
  "spec_null_move_R depth staticEval beta =
     3 + cdiv (depth - 2) 5 + min 0 (cdiv (staticEval - beta) 300)"

section \<open>Limits (Engine/Limits.h, Engine/Limits.cpp)\<close>

text \<open>
  \<open>time_t\<close> is a signed 64-bit count of milliseconds, modelled as \<open>int\<close>. The reading
  of the clock, \<open>timeNow()\<close>, is a parameter of \<open>reset\<close>.
\<close>

record Limits =
  m_softBreak :: int
  m_hardBreak :: int
  m_start :: int
  m_timeControlMoves :: nat
  m_movesMade :: int
  m_baseTime :: int
  m_incTime :: int
  m_depthLimit :: int
  m_nodesLimit :: nat

text \<open>The member initialisers of \<open>class Limits\<close>.\<close>

definition default_Limits :: Limits where
  "default_Limits =
     \<lparr>m_softBreak = 2 ^ 63 - 1, m_hardBreak = 2 ^ 63 - 1, m_start = 0,
      m_timeControlMoves = 0, m_movesMade = 0, m_baseTime = 60000, m_incTime = 3000,
      m_depthLimit = 99, m_nodesLimit = 2 ^ 64 - 1\<rparr>"

text \<open>
  \<open>time_t(ms * 0.9)\<close> and \<open>time_t(ms * 0.95)\<close> multiply in \<open>double\<close> and truncate. For
  every millisecond count below \<open>2^48\<close> the rounded product truncates to the same
  integer as the exact rational product, which is what is written here.
\<close>

definition times_0_9 :: "int \<Rightarrow> int" where
  "times_0_9 ms = cdiv (ms * 9) 10"

definition times_0_95 :: "int \<Rightarrow> int" where
  "times_0_95 ms = cdiv (ms * 19) 20"

definition computeConventionalTimeLimits :: "int \<Rightarrow> Limits \<Rightarrow> Limits" where
  "computeConventionalTimeLimits msLeft l =
     (let msPerMove =
            (if msLeft \<noteq> 0
             then min (cdiv msLeft ((int (m_timeControlMoves l) - m_movesMade l) mod 2 ^ 32)
                       + m_incTime l) msLeft
             else cdiv (m_baseTime l) (int (m_timeControlMoves l)) + m_incTime l)
      in l\<lparr>m_softBreak := m_start l + cdiv msPerMove 2,
           m_hardBreak := m_start l + times_0_9 msPerMove\<rparr>)"

definition GAME_LENGTH_FACTOR :: int where "GAME_LENGTH_FACTOR = 40"

definition incremental_msPerMove :: "int \<Rightarrow> Limits \<Rightarrow> int" where
  "incremental_msPerMove msLeft l =
     (if msLeft \<noteq> 0
      then min (m_incTime l + cdiv msLeft GAME_LENGTH_FACTOR) msLeft
      else m_incTime l + cdiv (m_baseTime l) GAME_LENGTH_FACTOR)"

definition computeIncrementalTimeLimits :: "int \<Rightarrow> Limits \<Rightarrow> Limits" where
  "computeIncrementalTimeLimits msLeft l =
     (let msPerMove = incremental_msPerMove msLeft l
      in l\<lparr>m_softBreak := m_start l + cdiv msPerMove 2,
           m_hardBreak := m_start l + times_0_9 msPerMove\<rparr>)"

definition computeExactTimePerMove :: "int \<Rightarrow> Limits \<Rightarrow> Limits" where
  "computeExactTimePerMove msLeft l =
     (let msForMove = (if msLeft \<noteq> 0 then msLeft else m_incTime l)
      in l\<lparr>m_softBreak := m_start l + times_0_9 msForMove,
           m_hardBreak := m_start l + times_0_95 msForMove\<rparr>)"

text \<open>\<open>size_t\<close> holds the computed limits in the self-play branch: unsigned, 64 bits.\<close>

definition to_size_t :: "int \<Rightarrow> int" where
  "to_size_t x = x mod 2 ^ 64"

definition to_time_t :: "int \<Rightarrow> int" where
  "to_time_t x = sint (word_of_int x :: 64 word)"

definition reset :: "int \<Rightarrow> bool \<Rightarrow> int \<Rightarrow> Limits \<Rightarrow> Limits" where
  "reset now isPlayingAgainstSelf msLeft l0 =
     (let l1 = l0\<lparr>m_start := now\<rparr>;
          l2 = (if m_timeControlMoves l1 \<noteq> 0 \<and> m_baseTime l1 \<noteq> 0
                  then computeConventionalTimeLimits msLeft l1
                else if m_baseTime l1 \<noteq> 0 then computeIncrementalTimeLimits msLeft l1
                else if m_incTime l1 \<noteq> 0 then computeExactTimePerMove msLeft l1
                else l1)
      in if isPlayingAgainstSelf then
           (let computedSoftLimit = to_size_t (m_softBreak l2 - m_start l2);
                computedHardLimit = to_size_t (m_hardBreak l2 - m_start l2)
            in l2\<lparr>m_softBreak := to_time_t (m_start l2 + max (computedSoftLimit div 10) 100),
                  m_hardBreak := to_time_t (m_start l2 + max (computedHardLimit div 10) 100)\<rparr>)
         else l2)"

text \<open>The incremental budget as the specification words it: \<open>increment + remaining/40\<close>.\<close>

definition spec_incremental_msPerMove :: "int \<Rightarrow> Limits \<Rightarrow> int" where
  "spec_incremental_msPerMove msLeft l = m_incTime l + cdiv msLeft 40"

section \<open>Chess types (Chess/Defs.h)\<close>

datatype Color = BLACK | WHITE

fun Color_getOpposite :: "Color \<Rightarrow> Color" where
  "Color_getOpposite BLACK = WHITE"
| "Color_getOpposite WHITE = BLACK"

definition Color_fromFENChar :: "char \<Rightarrow> Color" where
  "Color_fromFENChar ch = (if ch = CHR ''w'' then WHITE else BLACK)"

datatype PieceType = NONE | PAWN | KNIGHT | BISHOP | ROOK | QUEEN | KING

text \<open>
  A \<open>Piece\<close> is the byte \<open>color | (type << 1)\<close>; it is modelled by the pair it
  encodes, so that \<open>getColor\<close> and \<open>getType\<close> are the projections. \<open>Piece::NONE\<close>
  is the byte 0, the pair of \<open>BLACK\<close> and \<open>NONE\<close>.
\<close>

type_synonym Piece = "Color \<times> PieceType"

definition Piece_NONE :: Piece where "Piece_NONE = (BLACK, NONE)"

definition getColor :: "Piece \<Rightarrow> Color" where "getColor p = fst p"
definition getType :: "Piece \<Rightarrow> PieceType" where "getType p = snd p"

definition Piece_fromFENChar :: "char \<Rightarrow> Piece" where
  "Piece_fromFENChar ch =
     (if ch = CHR ''P'' then (WHITE, PAWN)
      else if ch = CHR ''N'' then (WHITE, KNIGHT)
      else if ch = CHR ''B'' then (WHITE, BISHOP)
      else if ch = CHR ''R'' then (WHITE, ROOK)
      else if ch = CHR ''Q'' then (WHITE, QUEEN)
      else if ch = CHR ''K'' then (WHITE, KING)
      else if ch = CHR ''p'' then (BLACK, PAWN)
      else if ch = CHR ''n'' then (BLACK, KNIGHT)
      else if ch = CHR ''b'' then (BLACK, BISHOP)
      else if ch = CHR ''r'' then (BLACK, ROOK)
      else if ch = CHR ''q'' then (BLACK, QUEEN)
      else if ch = CHR ''k'' then (BLACK, KING)
      else Piece_NONE)"

text \<open>
  \<open>File\<close>, \<open>Rank\<close> and \<open>Square\<close> wrap a \<open>u8\<close>; they are modelled as \<open>nat\<close>, and
  \<open>to_u8\<close> is the conversion of an \<open>int\<close> result back to the byte.
\<close>

definition to_u8 :: "int \<Rightarrow> nat" where
  "to_u8 x = nat (x mod 256)"

definition NO_POS :: nat where "NO_POS = 65"

definition Square_of :: "nat \<Rightarrow> nat \<Rightarrow> nat" where
  "Square_of file rank = to_u8 (int file OR int (to_u8 (int rank * 8)))"

definition getRank :: "nat \<Rightarrow> nat" where "getRank sq = sq div 8"
definition getFile :: "nat \<Rightarrow> nat" where "getFile sq = sq mod 8"

definition forward :: "nat \<Rightarrow> nat \<Rightarrow> nat" where
  "forward sq n = to_u8 (int sq + int n)"

definition backward :: "nat \<Rightarrow> nat \<Rightarrow> nat" where
  "backward sq n = to_u8 (int sq - int n)"

definition File_fromFENChar :: "char \<Rightarrow> nat" where
  "File_fromFENChar ch = to_u8 (int (of_char ch :: nat) - 97)"

definition Rank_fromFENChar :: "char \<Rightarrow> nat" where
  "Rank_fromFENChar ch = to_u8 (int (of_char ch :: nat) - 49)"

definition tolower :: "char \<Rightarrow> char" where
  "tolower ch = (if 65 \<le> (of_char ch :: nat) \<and> (of_char ch :: nat) \<le> 90
                 then char_of ((of_char ch :: nat) + 32) else ch)"

definition Square_fromChars :: "char \<Rightarrow> char \<Rightarrow> nat" where
  "Square_fromChars f r = Square_of (File_fromFENChar (tolower f)) (Rank_fromFENChar r)"

definition makeRelativeRank :: "Color \<Rightarrow> nat \<Rightarrow> nat" where
  "makeRelativeRank color rank = (case color of WHITE \<Rightarrow> rank | BLACK \<Rightarrow> nat (int rank XOR 7))"

definition makeRelativeSquare :: "Color \<Rightarrow> nat \<Rightarrow> nat" where
  "makeRelativeSquare color sq = (case color of WHITE \<Rightarrow> sq | BLACK \<Rightarrow> nat (int sq XOR 56))"

definition Square_getOpposite :: "nat \<Rightarrow> nat" where
  "Square_getOpposite sq = nat (int sq XOR 56)"

definition mirrorByFile :: "nat \<Rightarrow> nat" where
  "mirrorByFile sq = nat (int sq XOR 7)"

definition File_distance :: "nat \<Rightarrow> nat \<Rightarrow> nat" where
  "File_distance a b = nat \<bar>int a - int b\<bar>"

definition Rank_distance :: "nat \<Rightarrow> nat \<Rightarrow> nat" where
  "Rank_distance a b = nat \<bar>int a - int b\<bar>"

definition Square_distance :: "nat \<Rightarrow> nat \<Rightarrow> nat" where
  "Square_distance a b =
     max (Rank_distance (getRank a) (getRank b)) (File_distance (getFile a) (getFile b))"

section \<open>Bitboards (Chess/BitBoard.h, Chess/BitBoard.cpp)\<close>

type_synonym BitBoard = "64 word"
datatype Direction = UP | LEFT | UPLEFT | UPRIGHT | DOWNLEFT | DOWNRIGHT | RIGHT | DOWN

definition FILE_A :: BitBoard where "FILE_A = 0x0101010101010101"
definition RANK_1 :: BitBoard where "RANK_1 = 0xff"
definition fromFile :: "nat \<Rightarrow> BitBoard" where "fromFile f = push_bit f FILE_A"
definition fromRank :: "nat \<Rightarrow> BitBoard" where "fromRank r = push_bit (r * 8) RANK_1"
definition fromSquare :: "nat \<Rightarrow> BitBoard" where "fromSquare sq = push_bit sq 1"

fun shift :: "BitBoard \<Rightarrow> Direction \<Rightarrow> BitBoard" where
  "shift b UP = push_bit 8 b"
| "shift b DOWN = drop_bit 8 b"
| "shift b LEFT = drop_bit 1 b AND NOT (fromFile 7)"
| "shift b RIGHT = push_bit 1 b AND NOT (fromFile 0)"
| "shift b UPRIGHT = push_bit 9 b AND NOT (fromFile 0)"
| "shift b UPLEFT = push_bit 7 b AND NOT (fromFile 7)"
| "shift b DOWNRIGHT = drop_bit 7 b AND NOT (fromFile 0)"
| "shift b DOWNLEFT = drop_bit 9 b AND NOT (fromFile 7)"

definition lsb :: "BitBoard \<Rightarrow> nat" where
  "lsb b = (case find (bit b) [0..<64] of Some i \<Rightarrow> i | None \<Rightarrow> 64)"

definition goes_up :: "Direction \<Rightarrow> bool" where
  "goes_up d \<longleftrightarrow> d = UP \<or> d = RIGHT \<or> d = UPRIGHT \<or> d = UPLEFT"

function ray :: "Direction \<Rightarrow> BitBoard \<Rightarrow> BitBoard \<Rightarrow> BitBoard \<Rightarrow> BitBoard" where
  "ray dir occupied bb result =
     (let bb' = shift bb dir in
      if bb' = 0 then result
      else if occupied AND bb' \<noteq> 0 then result OR bb'
      else ray dir occupied bb' (result OR bb'))"
  by pat_completeness auto
termination
proof (relation "measure (\<lambda>(dir, occ, bb, res). if goes_up dir then 64 - lsb bb else unat bb)",
       goal_cases)
  case 1
  show ?case by simp
next
  case (2 dir occupied bb result bb')
  from 2 have eq: "bb' = shift bb dir" and nz: "shift bb dir \<noteq> 0" by simp_all
  have down: "unat (drop_bit k b AND m) < unat b" if "drop_bit k b AND m \<noteq> 0" "0 < k"
    for k and b m :: BitBoard
  proof -
    have b0: "b \<noteq> 0" using that(1) by auto
    have "unat (drop_bit k b AND m) \<le> unat (drop_bit k b)"
      by (simp add: word_and_le2 word_le_nat_alt[symmetric])
    also have "\<dots> = unat b div 2 ^ k" unfolding unat_drop_bit_eq by (rule drop_bit_eq_div)
    also have "\<dots> < unat b"
    proof (rule div_less_dividend)
      show "1 < (2::nat) ^ k" using that(2) by (intro one_less_power) simp_all
      show "0 < unat b" using b0 by (simp add: unat_gt_0)
    qed
    finally show ?thesis .
  qed
  have lsb_bit: "bit b (lsb b) \<and> lsb b < 64" if "b \<noteq> 0" for b :: BitBoard
  proof -
    from that obtain i where i: "bit b i" by (auto simp: bit_eq_iff)
    then have "i < 64" by (auto dest: bit_imp_le_length)
    with i have "\<exists>j \<in> set [0..<64]. bit b j" by auto
    then obtain j where fj: "find (bit b) [0..<64] = Some j"
      by (cases "find (bit b) [0..<64]") (auto simp: find_None_iff)
    then have "bit b j \<and> j < 64"
      by (auto simp: find_Some_iff)
    with fj show ?thesis
      by (simp add: lsb_def)
  qed
  have lsb_least: "lsb b \<le> i" if "bit b i" for b :: BitBoard and i
  proof -
    have i64: "i < 64" using that by (auto dest: bit_imp_le_length)
    show ?thesis
    proof (cases "find (bit b) [0..<64]")
      case None
      then have "\<not> bit b i" using i64 by (auto simp: find_None_iff)
      with that show ?thesis by simp
    next
      case (Some j)
      then have "\<forall>j' < j. \<not> bit b j'" "j < 64"
        by (auto simp: find_Some_iff)
      then have "j \<le> i" using that by (meson not_less)
      with Some show ?thesis by (simp add: lsb_def)
    qed
  qed
  have up: "64 - lsb (push_bit k b AND m) < 64 - lsb b" if "push_bit k b AND m \<noteq> 0" "0 < k"
    for k and b m :: BitBoard
  proof -
    let ?c = "push_bit k b AND m"
    from lsb_bit[OF that(1)] have c: "bit ?c (lsb ?c)" "lsb ?c < 64" by auto
    then have "k \<le> lsb ?c" "bit b (lsb ?c - k)" by (auto simp: bit_and_iff bit_push_bit_iff)
    then have "lsb b \<le> lsb ?c - k" using lsb_least by blast
    with \<open>k \<le> lsb ?c\<close> that(2) c(2) show ?thesis by linarith
  qed
  have up0: "64 - lsb (push_bit k b) < 64 - lsb b" if "push_bit k b \<noteq> 0" "0 < k"
    for k and b :: BitBoard
    using up[of k b "-1"] that by simp
  have down0: "unat (drop_bit k b) < unat b" if "drop_bit k b \<noteq> 0" "0 < k"
    for k and b :: BitBoard
    using down[of k b "-1"] that by simp
  have "(if goes_up dir then 64 - lsb (shift bb dir) else unat (shift bb dir))
          < (if goes_up dir then 64 - lsb bb else unat bb)"
  proof (cases dir)
    case UP
    with nz up0[of 8 bb] show ?thesis by (simp add: goes_up_def)
  next
    case LEFT
    with nz down[of 1 bb "NOT (fromFile 7)"] show ?thesis by (simp add: goes_up_def)
  next
    case UPLEFT
    with nz up[of 7 bb "NOT (fromFile 7)"] show ?thesis by (simp add: goes_up_def)
  next
    case UPRIGHT
    with nz up[of 9 bb "NOT (fromFile 0)"] show ?thesis by (simp add: goes_up_def)
  next
    case DOWNLEFT
    with nz down[of 9 bb "NOT (fromFile 7)"] show ?thesis by (simp add: goes_up_def)
  next
    case DOWNRIGHT
    with nz down[of 7 bb "NOT (fromFile 0)"] show ?thesis by (simp add: goes_up_def)
  next
    case RIGHT
    with nz up[of 1 bb "NOT (fromFile 0)"] show ?thesis by (simp add: goes_up_def)
  next
    case DOWN
    with nz down0[of 8 bb] show ?thesis by (simp add: goes_up_def)
  qed
  then show ?case using eq by simp
qed

definition slidingAttack :: "PieceType \<Rightarrow> nat \<Rightarrow> BitBoard \<Rightarrow> BitBoard" where
  "slidingAttack pt sq occupied =
     (if pt = ROOK then
        fold (\<lambda>dir result. ray dir occupied (fromSquare sq) result) [UP, DOWN, RIGHT, LEFT] 0
      else if pt = BISHOP then
        fold (\<lambda>dir result. ray dir occupied (fromSquare sq) result)
          [UPLEFT, DOWNLEFT, UPRIGHT, DOWNRIGHT] 0
      else 0)"

definition test :: "BitBoard \<Rightarrow> nat \<Rightarrow> bool" where
  "test b pos \<longleftrightarrow> b AND fromSquare pos \<noteq> 0"

definition bb_set :: "BitBoard \<Rightarrow> nat \<Rightarrow> BitBoard" where
  "bb_set b pos = b OR fromSquare pos"

definition bb_clear :: "BitBoard \<Rightarrow> nat \<Rightarrow> BitBoard" where
  "bb_clear b pos = b AND NOT (fromSquare pos)"

definition hasMoreThanOne :: "BitBoard \<Rightarrow> bool" where
  "hasMoreThanOne b \<longleftrightarrow> b AND (b - 1) \<noteq> 0"

text \<open>
  \<open>BB_FOR_EACH(sq, bb)\<close> pops the least significant square of \<open>bb\<close> until it is empty;
  \<open>bb_for_each f bb s\<close> runs the body \<open>f\<close> on the state \<open>s\<close> for each popped square.
\<close>

function bb_for_each :: "(nat \<Rightarrow> 'a \<Rightarrow> 'a) \<Rightarrow> BitBoard \<Rightarrow> 'a \<Rightarrow> 'a" where
  "bb_for_each f bb s = (if bb = 0 then s else bb_for_each f (bb AND (bb - 1)) (f (lsb bb) s))"
  by pat_completeness auto
termination
proof (relation "measure (\<lambda>(f, bb, s). unat bb)", goal_cases)
  case 1
  show ?case by simp
next
  case (2 f bb s)
  have "bb AND (bb - 1) \<le> bb - 1" by (rule word_and_le1)
  also have "bb - 1 < bb" using 2 by (simp add: word_less_nat_alt unat_minus_one unat_gt_0)
  finally show ?case by (simp add: word_less_nat_alt)
qed

fun Direction_getOpposite :: "Direction \<Rightarrow> Direction" where
  "Direction_getOpposite UP = DOWN"
| "Direction_getOpposite LEFT = RIGHT"
| "Direction_getOpposite UPLEFT = DOWNRIGHT"
| "Direction_getOpposite UPRIGHT = DOWNLEFT"
| "Direction_getOpposite DOWNLEFT = UPRIGHT"
| "Direction_getOpposite DOWNRIGHT = UPLEFT"
| "Direction_getOpposite RIGHT = LEFT"
| "Direction_getOpposite DOWN = UP"

definition makeRelativeDirection :: "Color \<Rightarrow> Direction \<Rightarrow> Direction" where
  "makeRelativeDirection color dir = (if color = BLACK then Direction_getOpposite dir else dir)"

definition Direction_iter :: "Direction list" where
  "Direction_iter = [UP, LEFT, UPLEFT, UPRIGHT, DOWNLEFT, DOWNRIGHT, RIGHT, DOWN]"

fun Square_shift :: "nat \<Rightarrow> Direction \<Rightarrow> nat" where
  "Square_shift sq UP = to_u8 (int sq + 8)"
| "Square_shift sq DOWN = to_u8 (int sq - 8)"
| "Square_shift sq LEFT = to_u8 (int sq - 1)"
| "Square_shift sq RIGHT = to_u8 (int sq + 1)"
| "Square_shift sq UPRIGHT = to_u8 (int sq + 9)"
| "Square_shift sq UPLEFT = to_u8 (int sq + 7)"
| "Square_shift sq DOWNRIGHT = to_u8 (int sq - 7)"
| "Square_shift sq DOWNLEFT = to_u8 (int sq - 9)"

text \<open>
  The eight loops of \<open>BitBoard::init\<close> that fill \<open>s_directionBits[i][dir]\<close>: each runs
  \<open>j\<close> from its start while its condition holds, adding its step.
\<close>

fun dir_cond :: "Direction \<Rightarrow> int \<Rightarrow> bool" where
  "dir_cond UP j \<longleftrightarrow> j < 64"
| "dir_cond DOWN j \<longleftrightarrow> j \<ge> 0"
| "dir_cond LEFT j \<longleftrightarrow> (j AND 7) < 7"
| "dir_cond RIGHT j \<longleftrightarrow> (j AND 7) > 0"
| "dir_cond UPRIGHT j \<longleftrightarrow> j < 64 \<and> (j AND 7) > 0"
| "dir_cond DOWNRIGHT j \<longleftrightarrow> j \<ge> 0 \<and> (j AND 7) > 0"
| "dir_cond DOWNLEFT j \<longleftrightarrow> j \<ge> 0 \<and> (j AND 7) < 7"
| "dir_cond UPLEFT j \<longleftrightarrow> j < 64 \<and> (j AND 7) < 7"

fun dir_step :: "Direction \<Rightarrow> int" where
  "dir_step UP = 8"
| "dir_step DOWN = - 8"
| "dir_step LEFT = - 1"
| "dir_step RIGHT = 1"
| "dir_step UPRIGHT = 9"
| "dir_step DOWNRIGHT = - 7"
| "dir_step DOWNLEFT = - 9"
| "dir_step UPLEFT = 7"

fun dir_measure :: "Direction \<Rightarrow> int \<Rightarrow> nat" where
  "dir_measure UP j = nat (64 - j)"
| "dir_measure DOWN j = nat (j + 1)"
| "dir_measure LEFT j = nat ((j + 1) mod 8)"
| "dir_measure RIGHT j = nat ((- j) mod 8)"
| "dir_measure UPRIGHT j = nat (64 - j)"
| "dir_measure DOWNRIGHT j = nat (j + 1)"
| "dir_measure DOWNLEFT j = nat (j + 1)"
| "dir_measure UPLEFT j = nat (64 - j)"

function directionBits_loop :: "Direction \<Rightarrow> int \<Rightarrow> BitBoard \<Rightarrow> BitBoard" where
  "directionBits_loop dir j acc =
     (if dir_cond dir j
      then directionBits_loop dir (j + dir_step dir) (acc OR push_bit (nat j) 1)
      else acc)"
  by pat_completeness auto
termination
proof (relation "measure (\<lambda>(dir, j, acc). dir_measure dir j)", goal_cases)
  case 1
  show ?case by simp
next
  case (2 dir j acc)
  have "j AND 7 = take_bit 3 j" by (simp add: take_bit_eq_mask mask_eq_exp_minus_1)
  then have m: "j AND 7 = j mod 8" by (simp add: take_bit_eq_mod)
  have step: "(k + 1) mod 8 = k mod 8 + 1" if "k mod 8 < 7" for k :: int
  proof -
    have "(k + 1) mod 8 = (k mod 8 + 1) mod 8" by (simp add: mod_add_left_eq)
    also have "\<dots> = k mod 8 + 1" using that by (intro mod_pos_pos_trivial) simp_all
    finally show ?thesis .
  qed
  show ?case
  proof (cases dir)
    case UP
    with 2 show ?thesis by simp
  next
    case DOWN
    with 2 show ?thesis by simp
  next
    case LEFT
    with 2 have "j mod 8 < 7" by (simp add: m)
    then have "(j + 1) mod 8 = j mod 8 + 1" by (rule step)
    with LEFT show ?thesis by simp
  next
    case RIGHT
    with 2 have a: "0 < j mod 8" by (simp add: m)
    have b: "(- j) mod 8 = 8 - j mod 8" using a by (simp add: zmod_zminus1_eq_if)
    have u: "j mod 8 < 8" by simp
    have "(- (j + 1)) mod 8 < (- j) mod 8"
    proof (cases "j mod 8 = 7")
      case True
      have "(j + 1) mod 8 = (j mod 8 + 1) mod 8" by (simp add: mod_add_left_eq)
      then have "(j + 1) mod 8 = 0" using True by simp
      then have "(- (j + 1)) mod 8 = 0" by (subst zmod_zminus1_eq_if) simp
      then show ?thesis using b True by simp
    next
      case False
      then have "j mod 8 < 7" using u by linarith
      then have c: "(j + 1) mod 8 = j mod 8 + 1" by (rule step)
      then have "(j + 1) mod 8 \<noteq> 0" using a by linarith
      then have "(- (j + 1)) mod 8 = 8 - (j + 1) mod 8" by (subst zmod_zminus1_eq_if) simp
      then show ?thesis using b c by linarith
    qed
    with RIGHT show ?thesis by simp
  next
    case UPRIGHT
    with 2 have "j < 64" by simp
    with UPRIGHT show ?thesis by simp
  next
    case DOWNRIGHT
    with 2 have "0 \<le> j" by simp
    with DOWNRIGHT show ?thesis by simp
  next
    case DOWNLEFT
    with 2 have "0 \<le> j" by simp
    with DOWNLEFT show ?thesis by simp
  next
    case UPLEFT
    with 2 have "j < 64" by simp
    with UPLEFT show ?thesis by simp
  qed
qed

definition directionBits :: "nat \<Rightarrow> Direction \<Rightarrow> BitBoard" where
  "directionBits i dir = directionBits_loop dir (int i + dir_step dir) 0"

definition betweenBits :: "nat \<Rightarrow> nat \<Rightarrow> BitBoard" where
  "betweenBits a b =
     fold (\<lambda>dir entry. if test (directionBits a dir) b
                        then directionBits a dir AND NOT (directionBits b dir) else entry)
       Direction_iter 0
     OR fromSquare b"

definition alignedBits :: "nat \<Rightarrow> nat \<Rightarrow> BitBoard" where
  "alignedBits a b =
     fold (\<lambda>dir entry. if test (directionBits a dir) b
                        then directionBits a dir OR directionBits a (Direction_getOpposite dir)
                             OR fromSquare a
                        else entry)
       Direction_iter 0"

definition areAligned :: "nat \<Rightarrow> nat \<Rightarrow> nat \<Rightarrow> bool" where
  "areAligned a b c \<longleftrightarrow> alignedBits a b AND fromSquare c \<noteq> 0"

definition pawnAttackedSquares :: "Color \<Rightarrow> BitBoard \<Rightarrow> BitBoard" where
  "pawnAttackedSquares side b =
     (case side of WHITE \<Rightarrow> shift b UPLEFT OR shift b UPRIGHT
                 | BLACK \<Rightarrow> shift b DOWNLEFT OR shift b DOWNRIGHT)"

definition pawnAttacks :: "Color \<Rightarrow> nat \<Rightarrow> BitBoard" where
  "pawnAttacks color sq = pawnAttackedSquares color (fromSquare sq)"

text \<open>
  The magic tables. \<open>initMagicBitBoards\<close> stores \<open>slidingAttack(pt, s, b)\<close> at index
  \<open>parallelExtract(b, mask)\<close> for every subset \<open>b\<close> of \<open>mask\<close>, and \<open>attacksOf\<close> reads
  the entry at \<open>parallelExtract(occ, mask)\<close>, the index of the subset \<open>occ & mask\<close>.
\<close>

definition magic_mask :: "PieceType \<Rightarrow> nat \<Rightarrow> BitBoard" where
  "magic_mask pt s =
     (let edges = ((RANK_1 OR fromRank 7) AND NOT (fromRank (getRank s)))
                  OR ((FILE_A OR fromFile 7) AND NOT (fromFile (getFile s)))
      in slidingAttack pt s 0 AND NOT edges)"

definition magic_attacks :: "PieceType \<Rightarrow> nat \<Rightarrow> BitBoard \<Rightarrow> BitBoard" where
  "magic_attacks pt sq occ = slidingAttack pt sq (occ AND magic_mask pt sq)"

fun s_pieceAttacks :: "PieceType \<Rightarrow> nat \<Rightarrow> BitBoard" where
  "s_pieceAttacks KING i = fold (\<lambda>dir entry. entry OR shift (fromSquare i) dir) Direction_iter 0"
| "s_pieceAttacks KNIGHT i =
     (let sqBB = fromSquare i in
        shift (shift sqBB UP) UPLEFT OR shift (shift sqBB UP) UPRIGHT
        OR shift (shift sqBB LEFT) UPLEFT OR shift (shift sqBB LEFT) DOWNLEFT
        OR shift (shift sqBB RIGHT) UPRIGHT OR shift (shift sqBB RIGHT) DOWNRIGHT
        OR shift (shift sqBB DOWN) DOWNLEFT OR shift (shift sqBB DOWN) DOWNRIGHT)"
| "s_pieceAttacks BISHOP i = magic_attacks BISHOP i 0"
| "s_pieceAttacks ROOK i = magic_attacks ROOK i 0"
| "s_pieceAttacks QUEEN i = magic_attacks BISHOP i 0 OR magic_attacks ROOK i 0"
| "s_pieceAttacks pt i = 0"

definition pseudoAttacks :: "PieceType \<Rightarrow> nat \<Rightarrow> BitBoard" where
  "pseudoAttacks pt sq = s_pieceAttacks pt sq"

definition attacksOf :: "PieceType \<Rightarrow> nat \<Rightarrow> BitBoard \<Rightarrow> BitBoard" where
  "attacksOf pt sq occ =
     (if pt = BISHOP then magic_attacks BISHOP sq occ
      else if pt = ROOK then magic_attacks ROOK sq occ
      else if pt = QUEEN then magic_attacks ROOK sq occ OR magic_attacks BISHOP sq occ
      else s_pieceAttacks pt sq)"


section \<open>Scores (Chess/Score.h, Engine/Scores.cpp)\<close>

text \<open>A \<open>Score\<close> packs two \<open>i16\<close> values; its arithmetic is component-wise.\<close>

type_synonym Score = "16 word \<times> 16 word"

definition S :: "int \<Rightarrow> int \<Rightarrow> Score" where
  "S mg eg = (word_of_int mg, word_of_int eg)"

definition Score_plus :: "Score \<Rightarrow> Score \<Rightarrow> Score" where
  "Score_plus a b = (fst a + fst b, snd a + snd b)"

definition Score_minus :: "Score \<Rightarrow> Score \<Rightarrow> Score" where
  "Score_minus a b = (fst a - fst b, snd a - snd b)"

definition middlegame :: "Score \<Rightarrow> int" where "middlegame sc = sint (fst sc)"
definition endgame :: "Score \<Rightarrow> int" where "endgame sc = sint (snd sc)"

fun materialOf :: "PieceType \<Rightarrow> int" where
  "materialOf NONE = 0"
| "materialOf PAWN = 1"
| "materialOf KNIGHT = 3"
| "materialOf BISHOP = 3"
| "materialOf ROOK = 5"
| "materialOf QUEEN = 10"
| "materialOf KING = 0"

fun PIECE_VALUE :: "PieceType \<Rightarrow> Score" where
  "PIECE_VALUE NONE = S 0 0"
| "PIECE_VALUE PAWN = S 100 130"
| "PIECE_VALUE KNIGHT = S 320 360"
| "PIECE_VALUE BISHOP = S 350 390"
| "PIECE_VALUE ROOK = S 550 650"
| "PIECE_VALUE QUEEN = S 1050 1150"
| "PIECE_VALUE KING = S 0 0"

text \<open>
  \<open>initScores\<close>: \<open>SIMPLIFIED_PIECE_VALUES[piece] = (mg + eg) / 2\<close> of the piece type's
  \<open>PIECE_VALUE\<close>, for every piece of \<open>Piece::iter()\<close>.
\<close>

definition SIMPLIFIED_PIECE_VALUES :: "Piece \<Rightarrow> int" where
  "SIMPLIFIED_PIECE_VALUES piece =
     to_Value (cdiv (middlegame (PIECE_VALUE (getType piece)) + endgame (PIECE_VALUE (getType piece))) 2)"

text \<open>The 32 initialised entries of the static table \<open>PST[Piece(WHITE, pt)]\<close>.\<close>

fun PST_half :: "PieceType \<Rightarrow> Score list" where
  "PST_half PAWN =
     [S 0 0, S 0 0, S 0 0, S 0 0,
      S 20 40, S 20 45, S 16 45, S 25 45,
      S 11 25, S 10 25, S 10 25, S 18 25,
      S 3 15, S 2 15, S 6 15, S 15 15,
      S 0 10, S 0 10, S 4 10, S 12 10,
      S 3 5, S 4 5, S (- 4) 5, S 0 5,
      S (- 2) 0, S (- 3) 0, S 4 0, S (- 12) 0,
      S 0 0, S 0 0, S 0 0, S 0 0]"
| "PST_half KNIGHT =
     [S (- 65) (- 40), S (- 40) (- 20), S (- 22) (- 20), S (- 15) (- 15),
      S (- 45) (- 30), S (- 15) (- 9), S 7 2, S 10 5,
      S (- 20) (- 14), S 3 2, S 15 10, S 26 17,
      S (- 12) (- 8), S 10 5, S 24 15, S 40 23,
      S (- 15) (- 10), S 5 5, S 20 15, S 36 23,
      S (- 30) (- 20), S 0 2, S 12 10, S 23 17,
      S (- 45) (- 30), S (- 16) (- 9), S 2 2, S 8 5,
      S (- 60) (- 40), S (- 25) (- 20), S (- 22) (- 20), S (- 25) (- 15)]"
| "PST_half BISHOP =
     [S (- 15) (- 20), S (- 14) (- 15), S (- 9) (- 10), S (- 15) (- 10),
      S (- 10) (- 15), S 5 10, S 2 5, S (- 2) 0,
      S (- 5) (- 10), S 7 5, S 5 10, S 8 5,
      S 0 (- 10), S (- 5) 0, S 10 5, S 15 10,
      S 0 (- 10), S (- 5) 0, S 10 5, S 15 10,
      S 10 (- 10), S 5 5, S 5 10, S 9 5,
      S 5 (- 15), S 20 10, S 3 5, S 0 0,
      S (- 5) (- 20), S (- 12) (- 15), S 1 (- 10), S (- 10) (- 10)]"
| "PST_half ROOK =
     [S (- 12) (- 1), S (- 10) 0, S (- 4) 0, S (- 1) 0,
      S (- 8) 0, S 4 0, S 5 0, S 5 0,
      S (- 15) 0, S (- 2) 0, S (- 5) 0, S (- 5) 0,
      S (- 20) 0, S (- 5) 0, S (- 10) 0, S (- 20) 0,
      S (- 20) 0, S (- 5) 0, S (- 10) 0, S (- 20) 0,
      S (- 15) 0, S (- 2) 0, S (- 5) 0, S (- 5) 0,
      S (- 8) 0, S 0 0, S 1 0, S 12 0,
      S (- 10) (- 1), S (- 8) 0, S 2 0, S 20 0]"
| "PST_half QUEEN =
     [S (- 8) (- 20), S (- 10) (- 15), S (- 10) (- 10), S 0 (- 5),
      S 0 (- 15), S 0 (- 9), S 0 0, S 10 0,
      S 0 (- 10), S 0 0, S 0 5, S 6 6,
      S 0 (- 5), S 0 3, S 4 10, S 3 12,
      S 0 (- 5), S 0 3, S 4 10, S 4 12,
      S 0 (- 10), S 0 0, S 0 5, S 0 6,
      S 0 (- 15), S 0 (- 9), S 0 0, S 0 0,
      S (- 8) (- 20), S (- 8) (- 15), S (- 5) (- 10), S 0 (- 5)]"
| "PST_half KING =
     [S (- 70) (- 60), S (- 70) (- 45), S (- 75) (- 40), S (- 80) (- 35),
      S (- 80) (- 45), S (- 80) (- 25), S (- 85) (- 20), S (- 85) (- 15),
      S (- 80) (- 40), S (- 80) (- 20), S (- 85) (- 5), S (- 85) 0,
      S (- 70) (- 35), S (- 70) (- 15), S (- 70) 0, S (- 70) 10,
      S (- 55) (- 35), S (- 55) (- 15), S (- 60) 0, S (- 65) 10,
      S (- 40) (- 40), S (- 45) (- 20), S (- 45) (- 5), S (- 50) 0,
      S (- 5) (- 45), S (- 5) (- 25), S (- 25) (- 20), S (- 30) (- 15),
      S 25 (- 60), S 35 (- 45), S 7 (- 40), S (- 5) (- 35)]"
| "PST_half NONE = replicate 32 (S 0 0)"

text \<open>
  The table \<open>scores::PST\<close> as \<open>initScores\<close> leaves it. The loop takes entry
  \<open>i = 4 * rank + file\<close> (\<open>file < 4\<close>) of the copied half table, adds the piece value
  and writes it, for black, to the square \<open>(file, rank)\<close> and its mirror by file and,
  for white, to the rank-flipped square and its mirror. Read back for a square of the
  board, that is the entry of the square's rank (flipped for white) and of the file
  folded onto the queen-side half.
\<close>

definition PST :: "Piece \<Rightarrow> nat \<Rightarrow> Score" where
  "PST piece sq =
     (let sqB = (case getColor piece of BLACK \<Rightarrow> sq | WHITE \<Rightarrow> Square_getOpposite sq);
          file = (if getFile sqB < 4 then getFile sqB else getFile (mirrorByFile sqB));
          i = 4 * getRank sqB + file
      in Score_plus (PST_half (getType piece) ! i) (PIECE_VALUE (getType piece)))"

section \<open>Zobrist keys (Chess/Zobrist.h)\<close>

text \<open>
  The key tables \<open>zobrist::PIECE\<close>, \<open>SIDE\<close>, \<open>EP\<close> and \<open>CASTLING\<close> are declared
  \<open>extern\<close> and their values are not part of the sources at hand: they are a parameter
  of the model. The two scalar keys are given in the header.
\<close>

record Zobrist =
  Z_PIECE :: "Piece \<Rightarrow> nat \<Rightarrow> Hash"
  Z_SIDE :: "Color \<Rightarrow> Hash"
  Z_EP :: "nat \<Rightarrow> Hash"
  Z_CASTLING :: "nat \<Rightarrow> Hash"

definition MOVE_KEY :: Hash where "MOVE_KEY = 0x54ca3eb5b5f3cb5b"
definition NULL_MOVE_KEY :: Hash where "NULL_MOVE_KEY = 0x08d9bc25bebf91b1"

section \<open>Castling rights (Chess/Defs.h)\<close>

datatype Castle = QUEEN_CASTLE | KING_CASTLE | BOTH_CASTLE | CASTLE_DONE

fun getBitMaskFor :: "Castle \<Rightarrow> Color \<Rightarrow> u8" where
  "getBitMaskFor QUEEN_CASTLE BLACK = 0x1"
| "getBitMaskFor KING_CASTLE BLACK = 0x2"
| "getBitMaskFor BOTH_CASTLE BLACK = 0x3"
| "getBitMaskFor CASTLE_DONE BLACK = 0x10"
| "getBitMaskFor QUEEN_CASTLE WHITE = 0x4"
| "getBitMaskFor KING_CASTLE WHITE = 0x8"
| "getBitMaskFor BOTH_CASTLE WHITE = 0xc"
| "getBitMaskFor CASTLE_DONE WHITE = 0x20"

definition hasCastleRight :: "u8 \<Rightarrow> Castle \<Rightarrow> Color \<Rightarrow> bool" where
  "hasCastleRight rights castle color \<longleftrightarrow>
     rights AND getBitMaskFor castle color = getBitMaskFor castle color"

definition castleChange :: "u8 list" where
  "castleChange =
     [4, 0, 0, 0, 12, 0, 0, 8,
      0, 0, 0, 0, 0, 0, 0, 0,
      0, 0, 0, 0, 0, 0, 0, 0,
      0, 0, 0, 0, 0, 0, 0, 0,
      0, 0, 0, 0, 0, 0, 0, 0,
      0, 0, 0, 0, 0, 0, 0, 0,
      0, 0, 0, 0, 0, 0, 0, 0,
      1, 0, 0, 0, 3, 0, 0, 2]"

text \<open>\<open>getCastleChangeMask\<close> asserts \<open>sq < 64\<close>; the model reads 0 changes elsewhere.\<close>

definition getCastleChangeMask :: "nat \<Rightarrow> u8" where
  "getCastleChangeMask sq = NOT (if sq < 64 then castleChange ! sq else 0)"

text \<open>
  \<open>bitMaskFromFENChar\<close> is \<open>unreachable()\<close> on any other character; the model gives
  the \<open>return 0\<close> that follows it.
\<close>

definition bitMaskFromFENChar :: "char \<Rightarrow> u8" where
  "bitMaskFromFENChar ch =
     (if ch = CHR ''K'' then getBitMaskFor KING_CASTLE WHITE
      else if ch = CHR ''Q'' then getBitMaskFor QUEEN_CASTLE WHITE
      else if ch = CHR ''k'' then getBitMaskFor KING_CASTLE BLACK
      else if ch = CHR ''q'' then getBitMaskFor QUEEN_CASTLE BLACK
      else 0)"

definition castlingInternalSquares :: "Color \<Rightarrow> Castle \<Rightarrow> BitBoard" where
  "castlingInternalSquares color castle =
     (let r = (case color of WHITE \<Rightarrow> 0 | BLACK \<Rightarrow> 56) in
      case castle of
        QUEEN_CASTLE \<Rightarrow> fromSquare (r + 1) OR fromSquare (r + 2) OR fromSquare (r + 3)
      | KING_CASTLE \<Rightarrow> fromSquare (r + 5) OR fromSquare (r + 6)
      | BOTH_CASTLE \<Rightarrow> fromSquare (r + 1) OR fromSquare (r + 2) OR fromSquare (r + 3)
                       OR fromSquare (r + 5) OR fromSquare (r + 6)
      | CASTLE_DONE \<Rightarrow> 0)"

section \<open>The board (Chess/Board.h, Chess/Board.cpp)\<close>

record StateInfo =
  checkBlockers :: "Color \<Rightarrow> BitBoard"
  pinners :: "Color \<Rightarrow> BitBoard"
  checkGivers :: BitBoard
  hash :: Hash
  lastRepetition :: int
  movesFromNull :: "32 word"
  ep :: nat
  captured :: Piece
  fiftyRule :: "8 word"
  castleRight :: "8 word"

text \<open>The default member initialisers of \<open>StateInfo\<close>.\<close>

definition StateInfo_init :: StateInfo where
  "StateInfo_init =
     \<lparr>checkBlockers = (\<lambda>_. 0), pinners = (\<lambda>_. 0), checkGivers = 0, hash = 0,
      lastRepetition = 0, movesFromNull = 0, ep = NO_POS, captured = Piece_NONE,
      fiftyRule = 0, castleRight = 0\<rparr>"

text \<open>
  The arrays \<open>m_board\<close>, \<open>m_pieces\<close>, \<open>m_piecesByColor\<close>, \<open>m_material\<close> and
  \<open>m_score\<close> are functions of their index; \<open>m_states\<close> is the vector of states, its
  last element the current one.
\<close>

record Board =
  m_board :: "nat \<Rightarrow> Piece"
  m_pieces :: "Piece \<Rightarrow> BitBoard"
  m_piecesByColor :: "Color \<Rightarrow> BitBoard"
  m_states :: "StateInfo list"
  m_material :: "Color \<Rightarrow> int"
  m_score :: "Color \<Rightarrow> Score"
  m_moveCount :: "32 word"
  m_side :: Color

text \<open>The constructor \<open>Board::Board()\<close>.\<close>

definition Board_init :: Board where
  "Board_init =
     \<lparr>m_board = (\<lambda>_. Piece_NONE), m_pieces = (\<lambda>_. 0), m_piecesByColor = (\<lambda>_. 0),
      m_states = [StateInfo_init], m_material = (\<lambda>_. 0), m_score = (\<lambda>_. S 0 0),
      m_moveCount = 1, m_side = WHITE\<rparr>"

definition state :: "Board \<Rightarrow> StateInfo" where
  "state b = last (m_states b)"

text \<open>A write through the reference \<open>state()\<close>.\<close>

definition map_state :: "(StateInfo \<Rightarrow> StateInfo) \<Rightarrow> Board \<Rightarrow> Board" where
  "map_state f b = b\<lparr>m_states := butlast (m_states b) @ [f (last (m_states b))]\<rparr>"

definition allPieces :: "Board \<Rightarrow> BitBoard" where
  "allPieces b = m_piecesByColor b WHITE OR m_piecesByColor b BLACK"

definition byPieceType :: "Board \<Rightarrow> PieceType \<Rightarrow> BitBoard" where
  "byPieceType b pt = m_pieces b (WHITE, pt) OR m_pieces b (BLACK, pt)"

definition pawns :: "Board \<Rightarrow> Color \<Rightarrow> BitBoard" where "pawns b c = m_pieces b (c, PAWN)"
definition knights :: "Board \<Rightarrow> Color \<Rightarrow> BitBoard" where "knights b c = m_pieces b (c, KNIGHT)"
definition bishops :: "Board \<Rightarrow> Color \<Rightarrow> BitBoard" where "bishops b c = m_pieces b (c, BISHOP)"
definition rooks :: "Board \<Rightarrow> Color \<Rightarrow> BitBoard" where "rooks b c = m_pieces b (c, ROOK)"
definition queens :: "Board \<Rightarrow> Color \<Rightarrow> BitBoard" where "queens b c = m_pieces b (c, QUEEN)"

definition rooksAndQueens :: "Board \<Rightarrow> Color \<Rightarrow> BitBoard" where
  "rooksAndQueens b c = rooks b c OR queens b c"

definition bishopsAndQueens :: "Board \<Rightarrow> Color \<Rightarrow> BitBoard" where
  "bishopsAndQueens b c = bishops b c OR queens b c"

definition king :: "Board \<Rightarrow> Color \<Rightarrow> nat" where
  "king b c = lsb (m_pieces b (c, KING))"

definition isInCheck :: "Board \<Rightarrow> bool" where
  "isInCheck b \<longleftrightarrow> checkGivers (state b) \<noteq> 0"

definition hasNonPawns :: "Board \<Rightarrow> Color \<Rightarrow> bool" where
  "hasNonPawns b c \<longleftrightarrow>
     m_piecesByColor b c XOR m_pieces b (c, PAWN) XOR m_pieces b (c, KING) \<noteq> 0"

text \<open>\<open>computeAttackersOf<Side>(sq, occ)\<close>: the pieces of \<open>side\<close> that attack \<open>sq\<close>.\<close>

definition computeAttackersOf :: "Board \<Rightarrow> Color \<Rightarrow> nat \<Rightarrow> BitBoard \<Rightarrow> BitBoard" where
  "computeAttackersOf b side sq occ =
     (pawnAttacks (Color_getOpposite side) sq AND m_pieces b (side, PAWN))
     OR (attacksOf KNIGHT sq occ AND m_pieces b (side, KNIGHT))
     OR (attacksOf BISHOP sq occ AND m_pieces b (side, BISHOP))
     OR (attacksOf ROOK sq occ AND m_pieces b (side, ROOK))
     OR (attacksOf QUEEN sq occ AND m_pieces b (side, QUEEN))
     OR (attacksOf KING sq occ AND m_pieces b (side, KING))"

definition computeAllAttackersOf :: "Board \<Rightarrow> nat \<Rightarrow> BitBoard \<Rightarrow> BitBoard" where
  "computeAllAttackersOf b sq occ =
     computeAttackersOf b BLACK sq occ OR computeAttackersOf b WHITE sq occ"

definition computeAttacksOf :: "Piece \<Rightarrow> nat \<Rightarrow> BitBoard \<Rightarrow> BitBoard" where
  "computeAttacksOf piece sq occ =
     (case getType piece of
        NONE \<Rightarrow> 0
      | PAWN \<Rightarrow> pawnAttacks (getColor piece) sq
      | _ \<Rightarrow> attacksOf (getType piece) sq occ)"

subsection \<open>Internal state\<close>

text \<open>The body of the loop over the snipers in \<open>updateInternalState(side)\<close>.\<close>

definition sniper_step :: "Board \<Rightarrow> Color \<Rightarrow> nat \<Rightarrow> BitBoard \<Rightarrow> nat \<Rightarrow> StateInfo \<Rightarrow> StateInfo" where
  "sniper_step b side kingSq occupancy sq st =
     (let bb = betweenBits kingSq sq AND occupancy in
      if bb \<noteq> 0 \<and> \<not> hasMoreThanOne bb then
        (let st1 = st\<lparr>checkBlockers := (checkBlockers st)(side := checkBlockers st side OR bb)\<rparr>
         in if bb AND m_piecesByColor b side \<noteq> 0
            then st1\<lparr>pinners := (pinners st1)(Color_getOpposite side :=
                                      bb_set (pinners st1 (Color_getOpposite side)) sq)\<rparr>
            else st1)
      else st)"

definition updateInternalState_side :: "Color \<Rightarrow> Board \<Rightarrow> Board" where
  "updateInternalState_side side b =
     (let kingSq = king b side;
          snipers = (pseudoAttacks BISHOP kingSq AND bishopsAndQueens b (Color_getOpposite side))
                    OR (pseudoAttacks ROOK kingSq AND rooksAndQueens b (Color_getOpposite side));
          occupancy = allPieces b XOR snipers
      in map_state (\<lambda>st. bb_for_each (sniper_step b side kingSq occupancy) snipers
                             (st\<lparr>checkBlockers := (checkBlockers st)(side := 0)\<rparr>)) b)"

definition updateInternalState :: "Board \<Rightarrow> Board" where
  "updateInternalState b =
     updateInternalState_side BLACK
       (updateInternalState_side WHITE
          (map_state (\<lambda>st. st\<lparr>checkGivers :=
              computeAttackersOf b (Color_getOpposite (m_side b)) (king b (m_side b)) (allPieces b)\<rparr>) b))"

definition initInternalState :: "Board \<Rightarrow> Board" where
  "initInternalState b =
     updateInternalState
       (map_state (\<lambda>st. st\<lparr>checkGivers :=
           computeAttackersOf b (Color_getOpposite (m_side b)) (king b (m_side b)) (allPieces b)\<rparr>) b)"

subsection \<open>FEN (Utils/StringUtils.h, Board::fromFEN)\<close>

definition isDigit :: "char \<Rightarrow> bool" where
  "isDigit ch \<longleftrightarrow> 48 \<le> (of_char ch :: nat) \<and> (of_char ch :: nat) \<le> 57"

definition digit_of :: "char \<Rightarrow> nat" where
  "digit_of ch = (of_char ch :: nat) - 48"

text \<open>
  \<open>str_utils::fromString<T>(str, i)\<close> for the unsigned type \<open>T\<close>, a word: the result
  and the advanced index. It stops without advancing once the value reaches a tenth of
  the type's maximum.
\<close>

function fromString_loop :: "string \<Rightarrow> nat \<Rightarrow> 'a::len word \<Rightarrow> 'a word \<times> nat" where
  "fromString_loop str i result =
     (if i < length str then
        (if \<not> isDigit (str ! i) then (result, i)
         else (let r = result * 10 + of_nat (digit_of (str ! i)) in
               if r \<ge> (- 1) div 10 then (r, i)
               else fromString_loop str (i + 1) r))
      else (result, i))"
  by pat_completeness auto
termination
  by (relation "measure (\<lambda>(str, i, result). length str - i)") auto

definition fromString :: "string \<Rightarrow> nat \<Rightarrow> 'a::len word \<times> nat" where
  "fromString str i = (if str = [] then (0, i) else fromString_loop str i 0)"

text \<open>Placing one piece: the body of the placement loop of \<open>fromFEN\<close>.\<close>

definition fen_place :: "Zobrist \<Rightarrow> Piece \<Rightarrow> nat \<Rightarrow> Board \<Rightarrow> Board" where
  "fen_place z piece sq b =
     map_state (\<lambda>st. st\<lparr>hash := hash st XOR Z_PIECE z piece sq\<rparr>)
       (b\<lparr>m_board := (m_board b)(sq := piece),
          m_pieces := (m_pieces b)(piece := bb_set (m_pieces b piece) sq),
          m_piecesByColor := (m_piecesByColor b)(getColor piece :=
                                bb_set (m_piecesByColor b (getColor piece)) sq),
          m_material := (m_material b)(getColor piece :=
                                m_material b (getColor piece) + materialOf (getType piece)),
          m_score := (m_score b)(getColor piece :=
                                Score_plus (m_score b (getColor piece)) (PST piece sq))\<rparr>)"

text \<open>
  The placement loop, from index \<open>i\<close> on: \<open>Inr (b, i)\<close> when it stops at a blank or at
  the end of the string, \<open>Inl b\<close> when it meets a character that is no piece.
\<close>

function fen_pieces :: "Zobrist \<Rightarrow> string \<Rightarrow> nat \<Rightarrow> nat \<Rightarrow> Board \<Rightarrow> Board + Board \<times> nat" where
  "fen_pieces z fen i sq b =
     (if i < length fen \<and> fen ! i \<noteq> CHR '' '' then
        (let ch = fen ! i in
         if isDigit ch then fen_pieces z fen (i + 1) (to_u8 (int sq + int (digit_of ch))) b
         else if ch = CHR ''/'' then
           fen_pieces z fen (i + 1) (Square_of 0 (to_u8 (int (getRank (backward sq 1)) - 1))) b
         else (let piece = Piece_fromFENChar ch in
               if piece = Piece_NONE then Inl b
               else fen_pieces z fen (i + 1) (forward sq 1) (fen_place z piece sq b)))
      else Inr (b, i))"
  by pat_completeness auto
termination
  by (relation "measure (\<lambda>(z, fen, i, sq, b). length fen - i)") auto

text \<open>The loop over the castling letters.\<close>

function fen_castling :: "string \<Rightarrow> nat \<Rightarrow> Board \<Rightarrow> Board \<times> nat" where
  "fen_castling fen i b =
     (if i < length fen \<and> fen ! i \<noteq> CHR '' '' then
        fen_castling fen (i + 1)
          (map_state (\<lambda>st. st\<lparr>castleRight := castleRight st OR bitMaskFromFENChar (fen ! i)\<rparr>) b)
      else (b, i))"
  by pat_completeness auto
termination
  by (relation "measure (\<lambda>(fen, i, b). length fen - i)") auto

text \<open>
  \<open>fromFEN(fen, success)\<close>. The out-parameter \<open>success\<close> is a reference to a variable of
  the caller: the model takes the value it holds before the call and returns the value
  it holds afterwards, next to the board. \<open>fen.size() - 1\<close> is unsigned arithmetic, at
  places where the string is known not to be empty.
\<close>

definition fromFEN :: "Zobrist \<Rightarrow> string \<Rightarrow> bool \<Rightarrow> Board \<times> bool" where
  "fromFEN z fen success =
     (case fen_pieces z fen 0 56 Board_init of
        Inl b \<Rightarrow> (b, False)
      | Inr (b0, i0) \<Rightarrow>
         (let i = i0 + 1 in
          if i \<ge> length fen then (b0, False)
          else
           (let b1 = b0\<lparr>m_side := Color_fromFENChar (fen ! i)\<rparr>;
                b2 = map_state (\<lambda>st. st\<lparr>hash := hash st XOR Z_SIDE z (m_side b1)\<rparr>) b1;
                i = i + 1
            in if i \<ge> length fen - 1 then (b2, success)
               else
                (let i = i + 1;
                     (b3, i) = (if fen ! i \<noteq> CHR ''-'' then fen_castling fen i b2 else (b2, i + 1))
                 in if i \<ge> length fen - 1 then (b3, success)
                    else
                     (let i = i + 1 in
                      if fen ! i \<noteq> CHR ''-'' \<and> i \<ge> length fen - 1 then (b3, False)
                      else
                       (let (b4, i) =
                              (if fen ! i \<noteq> CHR ''-''
                               then (map_state (\<lambda>st. st\<lparr>ep := Square_fromChars (fen ! i) (fen ! (i + 1))\<rparr>) b3,
                                     i + 1)
                               else (b3, i));
                            i = i + 1
                        in if i \<ge> length fen - 1 then (b4, success)
                           else
                            (let (fifty, i) = (fromString fen (i + 1) :: 8 word \<times> nat);
                                 b5 = map_state (\<lambda>st. st\<lparr>fiftyRule := fifty\<rparr>) b4;
                                 i = i + 1
                             in if i \<ge> length fen then (b5, success)
                                else
                                 (let fenMoveCount = (fst (fromString fen i) :: 32 word);
                                      b6 = b5\<lparr>m_moveCount :=
                                               (if fenMoveCount \<noteq> 0
                                                then 2 * (fenMoveCount - 1) else 0)
                                               + (case Color_getOpposite (m_side b5) of
                                                    BLACK \<Rightarrow> 0 | WHITE \<Rightarrow> 1)\<rparr>
                                  in (initInternalState b6, True)))))))))"


section \<open>Moves (Chess/Move.h)\<close>

datatype MoveType = SIMPLE | PROMOTION | ENPASSANT | CASTLE

text \<open>
  A move is its 16 bits of data: from (bits 0-5), to (6-11), promoted piece (12-13),
  move type (14-15). The ordering score that shares the 32-bit slot is not modelled.
\<close>

type_synonym Move = "16 word"

fun PieceType_value :: "PieceType \<Rightarrow> int" where
  "PieceType_value NONE = 0"
| "PieceType_value PAWN = 1"
| "PieceType_value KNIGHT = 2"
| "PieceType_value BISHOP = 3"
| "PieceType_value ROOK = 4"
| "PieceType_value QUEEN = 5"
| "PieceType_value KING = 6"

fun MoveType_value :: "MoveType \<Rightarrow> nat" where
  "MoveType_value SIMPLE = 0"
| "MoveType_value PROMOTION = 1"
| "MoveType_value ENPASSANT = 2"
| "MoveType_value CASTLE = 3"

text \<open>
  The constructor \<open>Move(from, to, mt, promotedPiece)\<close> builds the \<open>u32\<close>
  \<open>from | to << 6 | (promotedPiece - KNIGHT) << 12 | mt << 14\<close>; the data are its low
  16 bits. \<open>Move(from, to)\<close> is the same with \<open>SIMPLE\<close> and \<open>KNIGHT\<close>.
\<close>

definition Move_of :: "nat \<Rightarrow> nat \<Rightarrow> MoveType \<Rightarrow> PieceType \<Rightarrow> Move" where
  "Move_of from to mt promotedPiece =
     ucast ((of_nat from :: 32 word) OR push_bit 6 (of_nat to)
            OR push_bit 12 (word_of_int (PieceType_value promotedPiece - 2))
            OR push_bit 14 (of_nat (MoveType_value mt)))"

definition Move_simple :: "nat \<Rightarrow> nat \<Rightarrow> Move" where
  "Move_simple from to = ucast ((of_nat from :: 32 word) OR push_bit 6 (of_nat to))"

definition makeNullMove :: Move where "makeNullMove = 0"

definition isNullMove :: "Move \<Rightarrow> bool" where "isNullMove m \<longleftrightarrow> m = 0"

definition getFrom :: "Move \<Rightarrow> nat" where "getFrom m = unat (m AND 0x3f)"

definition getTo :: "Move \<Rightarrow> nat" where "getTo m = unat (drop_bit 6 m AND 0x3f)"

definition getPromotedPiece :: "Move \<Rightarrow> PieceType" where
  "getPromotedPiece m =
     (let k = drop_bit 12 m AND 0x3 in
      if k = 0 then KNIGHT else if k = 1 then BISHOP else if k = 2 then ROOK else QUEEN)"

definition getMoveType :: "Move \<Rightarrow> MoveType" where
  "getMoveType m =
     (let k = drop_bit 14 m AND 0x3 in
      if k = 0 then SIMPLE else if k = 1 then PROMOTION else if k = 2 then ENPASSANT else CASTLE)"

section \<open>Making and unmaking moves (Chess/Board.h, Chess/Board.cpp)\<close>

text \<open>
  \<open>pushNextState\<close>: a fresh \<open>StateInfo\<close> is appended and takes the castling rights
  and the hash of the previous one, with both counters advanced.
\<close>

definition pushNextState :: "Board \<Rightarrow> Board" where
  "pushNextState b =
     (let prev = last (m_states b) in
      b\<lparr>m_states := m_states b @
           [StateInfo_init\<lparr>castleRight := castleRight prev,
                            fiftyRule := fiftyRule prev + 1,
                            movesFromNull := movesFromNull prev + 1,
                            hash := hash prev\<rparr>]\<rparr>)"

definition change_of :: "nat \<Rightarrow> nat \<Rightarrow> BitBoard" where
  "change_of from to = fromSquare from OR fromSquare to"

definition movePieceWithCapture :: "Color \<Rightarrow> Piece \<Rightarrow> nat \<Rightarrow> nat \<Rightarrow> Board \<Rightarrow> Piece \<times> Board" where
  "movePieceWithCapture Side piece from to b =
     (let OppositeSide = Color_getOpposite Side;
          change = change_of from to;
          cap = m_board b to;
          b1 = b\<lparr>m_board := (m_board b)(from := Piece_NONE)\<rparr>;
          b2 = b1\<lparr>m_board := (m_board b1)(to := piece)\<rparr>;
          b3 = b2\<lparr>m_pieces := (m_pieces b2)(piece := m_pieces b2 piece XOR change)\<rparr>;
          b4 = b3\<lparr>m_piecesByColor := (m_piecesByColor b3)(Side := m_piecesByColor b3 Side XOR change)\<rparr>;
          b5 = b4\<lparr>m_score := (m_score b4)(Side :=
                   Score_plus (m_score b4 Side) (Score_minus (PST piece to) (PST piece from)))\<rparr>
      in if cap \<noteq> Piece_NONE then
           (let b6 = b5\<lparr>m_pieces := (m_pieces b5)(cap := bb_clear (m_pieces b5 cap) to)\<rparr>;
                b7 = b6\<lparr>m_piecesByColor := (m_piecesByColor b6)(OppositeSide :=
                         bb_clear (m_piecesByColor b6 OppositeSide) to)\<rparr>;
                b8 = b7\<lparr>m_score := (m_score b7)(OppositeSide :=
                         Score_minus (m_score b7 OppositeSide) (PST cap to))\<rparr>;
                b9 = b8\<lparr>m_material := (m_material b8)(OppositeSide :=
                         m_material b8 OppositeSide - materialOf (getType cap))\<rparr>
            in (cap, b9))
         else (cap, b5))"

definition unmovePieceWithCapture :: "Color \<Rightarrow> Piece \<Rightarrow> Piece \<Rightarrow> nat \<Rightarrow> nat \<Rightarrow> Board \<Rightarrow> Board" where
  "unmovePieceWithCapture Side piece cap from to b =
     (let OppositeSide = Color_getOpposite Side;
          change = change_of from to;
          b1 = b\<lparr>m_board := (m_board b)(to := cap)\<rparr>;
          b2 = b1\<lparr>m_board := (m_board b1)(from := piece)\<rparr>;
          b3 = b2\<lparr>m_pieces := (m_pieces b2)(piece := m_pieces b2 piece XOR change)\<rparr>;
          b4 = b3\<lparr>m_piecesByColor := (m_piecesByColor b3)(Side := m_piecesByColor b3 Side XOR change)\<rparr>;
          b5 = b4\<lparr>m_score := (m_score b4)(Side :=
                   Score_minus (m_score b4 Side) (Score_minus (PST piece to) (PST piece from)))\<rparr>
      in if cap \<noteq> Piece_NONE then
           (let b6 = b5\<lparr>m_pieces := (m_pieces b5)(cap := bb_set (m_pieces b5 cap) to)\<rparr>;
                b7 = b6\<lparr>m_piecesByColor := (m_piecesByColor b6)(OppositeSide :=
                         bb_set (m_piecesByColor b6 OppositeSide) to)\<rparr>;
                b8 = b7\<lparr>m_score := (m_score b7)(OppositeSide :=
                         Score_plus (m_score b7 OppositeSide) (PST cap to))\<rparr>;
                b9 = b8\<lparr>m_material := (m_material b8)(OppositeSide :=
                         m_material b8 OppositeSide + materialOf (getType cap))\<rparr>
            in b9)
         else b5)"

definition ep_capturedSq :: "Color \<Rightarrow> nat \<Rightarrow> nat" where
  "ep_capturedSq Side to = (if Side = WHITE then backward to 8 else forward to 8)"

definition doEnpassant :: "Color \<Rightarrow> bool \<Rightarrow> nat \<Rightarrow> nat \<Rightarrow> Board \<Rightarrow> Board" where
  "doEnpassant Side IsDoing from to b =
     (let OppositeSide = Color_getOpposite Side;
          OurPawn = (Side, PAWN);
          OppositePawn = (OppositeSide, PAWN);
          change = change_of from to;
          capturedSq = ep_capturedSq Side to
      in if IsDoing then
           (let b1 = b\<lparr>m_board := (m_board b)(to := OurPawn)\<rparr>;
                b2 = b1\<lparr>m_board := (m_board b1)(from := Piece_NONE)\<rparr>;
                b3 = b2\<lparr>m_board := (m_board b2)(capturedSq := Piece_NONE)\<rparr>;
                b4 = b3\<lparr>m_pieces := (m_pieces b3)(OurPawn := m_pieces b3 OurPawn XOR change)\<rparr>;
                b5 = b4\<lparr>m_piecesByColor := (m_piecesByColor b4)(Side := m_piecesByColor b4 Side XOR change)\<rparr>;
                b6 = b5\<lparr>m_score := (m_score b5)(Side :=
                         Score_plus (m_score b5 Side) (Score_minus (PST OurPawn to) (PST OurPawn from)))\<rparr>;
                b7 = b6\<lparr>m_pieces := (m_pieces b6)(OppositePawn := bb_clear (m_pieces b6 OppositePawn) capturedSq)\<rparr>;
                b8 = b7\<lparr>m_piecesByColor := (m_piecesByColor b7)(OppositeSide :=
                         bb_clear (m_piecesByColor b7 OppositeSide) capturedSq)\<rparr>;
                b9 = b8\<lparr>m_score := (m_score b8)(OppositeSide :=
                         Score_minus (m_score b8 OppositeSide) (PST OppositePawn capturedSq))\<rparr>
            in b9\<lparr>m_material := (m_material b9)(OppositeSide :=
                         m_material b9 OppositeSide - materialOf PAWN)\<rparr>)
         else
           (let b1 = b\<lparr>m_board := (m_board b)(from := OurPawn)\<rparr>;
                b2 = b1\<lparr>m_board := (m_board b1)(to := Piece_NONE)\<rparr>;
                b3 = b2\<lparr>m_board := (m_board b2)(capturedSq := OppositePawn)\<rparr>;
                b4 = b3\<lparr>m_pieces := (m_pieces b3)(OurPawn := m_pieces b3 OurPawn XOR change)\<rparr>;
                b5 = b4\<lparr>m_piecesByColor := (m_piecesByColor b4)(Side := m_piecesByColor b4 Side XOR change)\<rparr>;
                b6 = b5\<lparr>m_score := (m_score b5)(Side :=
                         Score_minus (m_score b5 Side) (Score_minus (PST OurPawn to) (PST OurPawn from)))\<rparr>;
                b7 = b6\<lparr>m_pieces := (m_pieces b6)(OppositePawn := bb_set (m_pieces b6 OppositePawn) capturedSq)\<rparr>;
                b8 = b7\<lparr>m_piecesByColor := (m_piecesByColor b7)(OppositeSide :=
                         bb_set (m_piecesByColor b7 OppositeSide) capturedSq)\<rparr>;
                b9 = b8\<lparr>m_score := (m_score b8)(OppositeSide :=
                         Score_plus (m_score b8 OppositeSide) (PST OppositePawn capturedSq))\<rparr>
            in b9\<lparr>m_material := (m_material b9)(OppositeSide :=
                         m_material b9 OppositeSide + materialOf PAWN)\<rparr>))"

definition promotePawn :: "Color \<Rightarrow> bool \<Rightarrow> Piece \<Rightarrow> nat \<Rightarrow> nat \<Rightarrow> Board \<Rightarrow> Board" where
  "promotePawn Side IsDoing promoted from to b =
     (let OurPawn = (Side, PAWN);
          change = change_of from to
      in if IsDoing then
           (let b1 = b\<lparr>m_board := (m_board b)(from := Piece_NONE)\<rparr>;
                b2 = b1\<lparr>m_board := (m_board b1)(to := promoted)\<rparr>;
                b3 = b2\<lparr>m_pieces := (m_pieces b2)(OurPawn := bb_clear (m_pieces b2 OurPawn) from)\<rparr>;
                b4 = b3\<lparr>m_pieces := (m_pieces b3)(promoted := bb_set (m_pieces b3 promoted) to)\<rparr>;
                b5 = b4\<lparr>m_piecesByColor := (m_piecesByColor b4)(Side := m_piecesByColor b4 Side XOR change)\<rparr>;
                b6 = b5\<lparr>m_score := (m_score b5)(Side :=
                         Score_plus (m_score b5 Side) (Score_minus (PST promoted to) (PST OurPawn from)))\<rparr>
            in b6\<lparr>m_material := (m_material b6)(Side :=
                         m_material b6 Side + (materialOf (getType promoted) - materialOf PAWN))\<rparr>)
         else
           (let b1 = b\<lparr>m_board := (m_board b)(to := Piece_NONE)\<rparr>;
                b2 = b1\<lparr>m_board := (m_board b1)(from := OurPawn)\<rparr>;
                b3 = b2\<lparr>m_pieces := (m_pieces b2)(OurPawn := bb_set (m_pieces b2 OurPawn) from)\<rparr>;
                b4 = b3\<lparr>m_pieces := (m_pieces b3)(promoted := bb_clear (m_pieces b3 promoted) to)\<rparr>;
                b5 = b4\<lparr>m_piecesByColor := (m_piecesByColor b4)(Side := m_piecesByColor b4 Side XOR change)\<rparr>;
                b6 = b5\<lparr>m_score := (m_score b5)(Side :=
                         Score_minus (m_score b5 Side) (Score_minus (PST promoted to) (PST OurPawn from)))\<rparr>
            in b6\<lparr>m_material := (m_material b6)(Side :=
                         m_material b6 Side - (materialOf (getType promoted) - materialOf PAWN))\<rparr>))"

definition promotePawnWithCapture :: "Color \<Rightarrow> Piece \<Rightarrow> nat \<Rightarrow> nat \<Rightarrow> Board \<Rightarrow> Piece \<times> Board" where
  "promotePawnWithCapture Side promoted from to b =
     (let OppositeSide = Color_getOpposite Side;
          cap = m_board b to;
          b6 = promotePawn Side True promoted from to b
      in if cap \<noteq> Piece_NONE then
           (let b7 = b6\<lparr>m_pieces := (m_pieces b6)(cap := bb_clear (m_pieces b6 cap) to)\<rparr>;
                b8 = b7\<lparr>m_piecesByColor := (m_piecesByColor b7)(OppositeSide :=
                         bb_clear (m_piecesByColor b7 OppositeSide) to)\<rparr>;
                b9 = b8\<lparr>m_score := (m_score b8)(OppositeSide :=
                         Score_minus (m_score b8 OppositeSide) (PST cap to))\<rparr>
            in (cap, b9\<lparr>m_material := (m_material b9)(OppositeSide :=
                         m_material b9 OppositeSide - materialOf (getType cap))\<rparr>))
         else (cap, b6))"

definition unpromotePawnWithCapture :: "Color \<Rightarrow> Piece \<Rightarrow> Piece \<Rightarrow> nat \<Rightarrow> nat \<Rightarrow> Board \<Rightarrow> Board" where
  "unpromotePawnWithCapture Side promoted cap from to b =
     (let OppositeSide = Color_getOpposite Side;
          OurPawn = (Side, PAWN);
          change = change_of from to;
          b1 = b\<lparr>m_board := (m_board b)(to := cap)\<rparr>;
          b2 = b1\<lparr>m_board := (m_board b1)(from := OurPawn)\<rparr>;
          b3 = b2\<lparr>m_pieces := (m_pieces b2)(OurPawn := bb_set (m_pieces b2 OurPawn) from)\<rparr>;
          b4 = b3\<lparr>m_pieces := (m_pieces b3)(promoted := bb_clear (m_pieces b3 promoted) to)\<rparr>;
          b5 = b4\<lparr>m_piecesByColor := (m_piecesByColor b4)(Side := m_piecesByColor b4 Side XOR change)\<rparr>;
          b6 = b5\<lparr>m_score := (m_score b5)(Side :=
                   Score_minus (m_score b5 Side) (Score_minus (PST promoted to) (PST OurPawn from)))\<rparr>;
          b7 = b6\<lparr>m_material := (m_material b6)(Side :=
                   m_material b6 Side - (materialOf (getType promoted) - materialOf PAWN))\<rparr>
      in if cap \<noteq> Piece_NONE then
           (let b8 = b7\<lparr>m_pieces := (m_pieces b7)(cap := bb_set (m_pieces b7 cap) to)\<rparr>;
                b9 = b8\<lparr>m_piecesByColor := (m_piecesByColor b8)(OppositeSide :=
                         bb_set (m_piecesByColor b8 OppositeSide) to)\<rparr>;
                b10 = b9\<lparr>m_score := (m_score b9)(OppositeSide :=
                         Score_plus (m_score b9 OppositeSide) (PST cap to))\<rparr>
            in b10\<lparr>m_material := (m_material b10)(OppositeSide :=
                         m_material b10 OppositeSide + materialOf (getType cap))\<rparr>)
         else b7)"

text \<open>
  \<open>doCastling<Side, IsDoing>\<close>. Both branches of the source have the same body; they
  differ in the rook squares, H1/F1 for the king side and A1/D1 for the queen side,
  relative to the side and exchanged when undoing.
\<close>

definition doCastling :: "Color \<Rightarrow> bool \<Rightarrow> nat \<Rightarrow> nat \<Rightarrow> Board \<Rightarrow> Board" where
  "doCastling Side IsDoing from to b =
     (let OurRook = (Side, ROOK);
          OurKing = (Side, KING);
          kingFrom = (if IsDoing then from else to);
          kingTo = (if IsDoing then to else from);
          changeKing = change_of from to;
          kingSide = (getFile to = 6);
          ROOK_FROM = makeRelativeSquare Side
             (if kingSide then (if IsDoing then 7 else 5) else (if IsDoing then 0 else 3));
          ROOK_TO = makeRelativeSquare Side
             (if kingSide then (if IsDoing then 5 else 7) else (if IsDoing then 3 else 0));
          changeRook = fromSquare ROOK_FROM OR fromSquare ROOK_TO;
          ourChange = changeKing OR changeRook;
          b1 = b\<lparr>m_board := (m_board b)(kingFrom := Piece_NONE)\<rparr>;
          b2 = b1\<lparr>m_board := (m_board b1)(kingTo := OurKing)\<rparr>;
          b3 = b2\<lparr>m_board := (m_board b2)(ROOK_FROM := Piece_NONE)\<rparr>;
          b4 = b3\<lparr>m_board := (m_board b3)(ROOK_TO := OurRook)\<rparr>;
          b5 = b4\<lparr>m_pieces := (m_pieces b4)(OurKing := m_pieces b4 OurKing XOR changeKing)\<rparr>;
          b6 = b5\<lparr>m_pieces := (m_pieces b5)(OurRook := m_pieces b5 OurRook XOR changeRook)\<rparr>;
          b7 = b6\<lparr>m_piecesByColor := (m_piecesByColor b6)(Side := m_piecesByColor b6 Side XOR ourChange)\<rparr>
      in b7\<lparr>m_score := (m_score b7)(Side :=
               Score_plus (m_score b7 Side)
                 (Score_minus
                    (Score_plus (Score_minus (PST OurKing kingTo) (PST OurKing kingFrom))
                                (PST OurRook ROOK_TO))
                    (PST OurRook ROOK_FROM)))\<rparr>)"

text \<open>
  The repetition scan of \<open>makeMove\<close>: \<open>i\<close> runs down in steps of two while \<open>i >= to\<close>;
  \<open>Some d\<close> is the distance stored into \<open>lastRepetition\<close> at the first state with the
  current hash. An index outside the vector ends the scan; it cannot occur while
  \<open>movesFromNull\<close> is below the number of states, as \<open>pushNextState\<close> keeps it.
\<close>

function repetition_scan :: "StateInfo list \<Rightarrow> Hash \<Rightarrow> int \<Rightarrow> int \<Rightarrow> int option" where
  "repetition_scan states current to i =
     (if i \<ge> to then
        (if i < 0 \<or> i \<ge> int (length states) then None
         else if hash (states ! nat i) = current then Some (int (length states) - i)
         else repetition_scan states current to (i - 2))
      else None)"
  by pat_completeness auto
termination
  by (relation "measure (\<lambda>(states, current, to, i). nat (i - to + 1))") auto

definition update_repetitions :: "Board \<Rightarrow> Board" where
  "update_repetitions b =
     (let st = state b;
          ply = min (uint (fiftyRule st)) (sint (movesFromNull st))
      in if ply \<ge> 4 then
           (case repetition_scan (m_states b) (hash st) (int (length (m_states b)) - ply)
                   (int (length (m_states b)) - 5) of
              Some d \<Rightarrow> map_state (\<lambda>st. st\<lparr>lastRepetition := d\<rparr>) b
            | None \<Rightarrow> b)
         else b)"

text \<open>\<open>makeMove<Side>(m)\<close>, with \<open>Side\<close> the side to move of the board.\<close>

definition makeMove :: "Zobrist \<Rightarrow> Move \<Rightarrow> Board \<Rightarrow> Board" where
  "makeMove z m b =
     (let Side = m_side b;
          b0 = pushNextState b;
          from = getFrom m;
          to = getTo m;
          mt = getMoveType m;
          piece = m_board b0 from;
          b1 = map_state (\<lambda>st. st\<lparr>ep := NO_POS\<rparr>) b0;
          b2 = b1\<lparr>m_moveCount := m_moveCount b1 + 1\<rparr>;
          b3 = b2\<lparr>m_side := Color_getOpposite Side\<rparr>;
          b4 = map_state (\<lambda>st. st\<lparr>hash := hash st XOR MOVE_KEY\<rparr>) b3;
          b5 =
            (case mt of
               SIMPLE \<Rightarrow>
                 (let (cap, c1) = movePieceWithCapture Side piece from to b4;
                      c2 = map_state (\<lambda>st. st\<lparr>captured := cap\<rparr>) c1;
                      c3 = (if cap \<noteq> Piece_NONE then
                              map_state (\<lambda>st. st\<lparr>hash := hash st XOR Z_PIECE z cap to, fiftyRule := 0\<rparr>) c2
                            else if piece = (Side, PAWN) then
                              map_state (\<lambda>st. st\<lparr>fiftyRule := 0,
                                   ep := (if Square_distance from to = 2
                                          then (if Side = WHITE then forward from 8 else backward from 8)
                                          else ep st)\<rparr>) c2
                            else c2)
                  in map_state (\<lambda>st. st\<lparr>hash := hash st XOR (Z_PIECE z piece from XOR Z_PIECE z piece to),
                                           castleRight := castleRight st AND getCastleChangeMask from
                                                            AND getCastleChangeMask to\<rparr>) c3)
             | PROMOTION \<Rightarrow>
                 (let promoted = (Side, getPromotedPiece m);
                      c1 = (if int to - int from \<noteq> (if Side = WHITE then 8 else - 8) then
                              (let (cap, d1) = promotePawnWithCapture Side promoted from to b4;
                                   d2 = map_state (\<lambda>st. st\<lparr>captured := cap\<rparr>) d1
                               in if cap \<noteq> Piece_NONE
                                  then map_state (\<lambda>st. st\<lparr>hash := hash st XOR Z_PIECE z cap to\<rparr>) d2
                                  else d2)
                            else promotePawn Side True promoted from to b4)
                  in map_state (\<lambda>st. st\<lparr>hash := hash st XOR (Z_PIECE z (Side, PAWN) from
                                                             XOR Z_PIECE z (Side, getPromotedPiece m) to),
                                           fiftyRule := 0,
                                           castleRight := castleRight st AND getCastleChangeMask from
                                                            AND getCastleChangeMask to\<rparr>) c1)
             | ENPASSANT \<Rightarrow>
                 map_state (\<lambda>st. st\<lparr>fiftyRule := 0,
                                      hash := hash st XOR (Z_PIECE z (Side, PAWN) from
                                                           XOR Z_PIECE z (Side, PAWN) to)\<rparr>)
                   (doEnpassant Side True from to b4)
             | CASTLE \<Rightarrow>
                 (let c1 = map_state (\<lambda>st. st\<lparr>castleRight :=
                              (castleRight st AND getCastleChangeMask from)
                              OR getBitMaskFor CASTLE_DONE Side\<rparr>) b4;
                      c2 = doCastling Side True from to c1;
                      c3 = map_state (\<lambda>st. st\<lparr>hash := hash st XOR (Z_PIECE z (Side, KING) from
                                                                 XOR Z_PIECE z (Side, KING) to)\<rparr>) c2;
                      ROOK_FROM = makeRelativeSquare Side (if getFile to = 6 then 7 else 0);
                      ROOK_TO = makeRelativeSquare Side (if getFile to = 6 then 5 else 3)
                  in map_state (\<lambda>st. st\<lparr>hash := hash st XOR (Z_PIECE z (Side, ROOK) ROOK_FROM
                                                             XOR Z_PIECE z (Side, ROOK) ROOK_TO)\<rparr>) c3))
      in update_repetitions (updateInternalState b5))"

text \<open>
  \<open>unmakeMove(m)\<close> dispatches on the side to move after the move, so that \<open>Side\<close> is
  the side that made it.
\<close>

definition unmakeMove :: "Move \<Rightarrow> Board \<Rightarrow> Board" where
  "unmakeMove m b =
     (let Side = Color_getOpposite (m_side b);
          cap = captured (state b);
          b1 = b\<lparr>m_states := butlast (m_states b)\<rparr>;
          b2 = b1\<lparr>m_moveCount := m_moveCount b1 - 1\<rparr>;
          b3 = b2\<lparr>m_side := Side\<rparr>;
          from = getFrom m;
          to = getTo m;
          mt = getMoveType m;
          piece = m_board b3 to
      in case mt of
           SIMPLE \<Rightarrow> unmovePieceWithCapture Side piece cap from to b3
         | PROMOTION \<Rightarrow>
             (let promoted = (Side, getPromotedPiece m) in
              if cap \<noteq> Piece_NONE then unpromotePawnWithCapture Side promoted cap from to b3
              else promotePawn Side False promoted from to b3)
         | ENPASSANT \<Rightarrow> doEnpassant Side False from to b3
         | CASTLE \<Rightarrow> doCastling Side False from to b3)"

subsection \<open>Draw predicates\<close>

definition lowMaterialDraw :: "Board \<Rightarrow> bool" where
  "lowMaterialDraw b \<longleftrightarrow>
     (if byPieceType b PAWN \<noteq> 0 then False
      else if m_material b WHITE < 5 \<and> m_material b BLACK < 5 then True
      else False)"

definition fiftyRuleDraw :: "Board \<Rightarrow> bool" where
  "fiftyRuleDraw b \<longleftrightarrow> fiftyRule (state b) \<ge> 100"

text \<open>
  \<open>repetitionDraw(ply)\<close>; the state of the repeated position is
  \<open>m_states[m_states.size() - lastRep]\<close>.
\<close>

definition repetitionDraw :: "Board \<Rightarrow> int \<Rightarrow> bool" where
  "repetitionDraw b ply \<longleftrightarrow>
     (let lastRep = lastRepetition (state b) in
      if lastRep \<noteq> 0 then
        (if ply \<noteq> 0 then True
         else lastRepetition (m_states b ! nat (int (length (m_states b)) - lastRep)) \<noteq> 0)
      else False)"

definition isDraw :: "Board \<Rightarrow> int \<Rightarrow> bool" where
  "isDraw b ply \<longleftrightarrow> lowMaterialDraw b \<or> fiftyRuleDraw b \<or> repetitionDraw b ply"

subsection \<open>Legality\<close>

text \<open>
  The loop of the castling case walks from \<open>to\<close> back to \<open>from\<close> with the \<open>u8\<close> step
  \<open>-1\<close> (255) or \<open>1\<close>; \<open>n\<close> bounds the walk by the 256 values a square byte can take.
\<close>

fun castle_path_attacked :: "nat \<Rightarrow> Board \<Rightarrow> nat \<Rightarrow> nat \<Rightarrow> nat \<Rightarrow> bool option" where
  "castle_path_attacked 0 b step from sq = None"
| "castle_path_attacked (Suc n) b step from sq =
     (if sq \<noteq> from then
        (if computeAttackersOf b (Color_getOpposite (m_side b)) sq (allPieces b) \<noteq> 0
         then Some True
         else castle_path_attacked n b step from (forward sq step))
      else Some False)"

definition isLegal :: "Board \<Rightarrow> Move \<Rightarrow> bool" where
  "isLegal b m =
     (let from = getFrom m; to = getTo m in
      case getMoveType m of
        SIMPLE \<Rightarrow>
          (if getType (m_board b from) = KING then
             computeAttackersOf b (Color_getOpposite (m_side b)) to
               (allPieces b XOR fromSquare from) = 0
           else \<not> test (checkBlockers (state b) (m_side b)) from
                \<or> areAligned from to (king b (m_side b)))
      | PROMOTION \<Rightarrow>
          \<not> test (checkBlockers (state b) (m_side b)) from
          \<or> areAligned from to (king b (m_side b))
      | ENPASSANT \<Rightarrow>
          (let kingSq = king b (m_side b);
               capturedSq = (if m_side b = WHITE then backward to 8 else forward to 8);
               occ = ((allPieces b XOR fromSquare from) XOR fromSquare capturedSq) OR fromSquare to
           in attacksOf ROOK kingSq occ AND rooksAndQueens b (Color_getOpposite (m_side b)) = 0
              \<and> attacksOf BISHOP kingSq occ AND bishopsAndQueens b (Color_getOpposite (m_side b)) = 0)
      | CASTLE \<Rightarrow>
          (case castle_path_attacked 256 b (if getFile to = 6 then 255 else 1) from to of
             Some attacked \<Rightarrow> \<not> attacked
           | None \<Rightarrow> False))"

subsection \<open>Static exchange evaluation\<close>

definition xray_bishop :: "Board \<Rightarrow> nat \<Rightarrow> BitBoard \<Rightarrow> BitBoard" where
  "xray_bishop b to occ =
     attacksOf BISHOP to occ AND (bishopsAndQueens b WHITE OR bishopsAndQueens b BLACK)"

definition xray_rook :: "Board \<Rightarrow> nat \<Rightarrow> BitBoard \<Rightarrow> BitBoard" where
  "xray_rook b to occ =
     attacksOf ROOK to occ AND (rooksAndQueens b WHITE OR rooksAndQueens b BLACK)"

text \<open>
  The attackers of \<open>side\<close> that may capture next: those still on the board, without the
  check blockers of \<open>side\<close> while a pinner of the other side is still on the board.
\<close>

definition see_currentAttackers :: "Board \<Rightarrow> Color \<Rightarrow> BitBoard \<Rightarrow> BitBoard \<Rightarrow> BitBoard" where
  "see_currentAttackers b side occ attackers =
     (let currentAttackers = (attackers AND occ) AND m_piecesByColor b side in
      if occ AND pinners (state b) (Color_getOpposite side) \<noteq> 0
      then currentAttackers AND NOT (checkBlockers (state b) side)
      else currentAttackers)"

text \<open>
  The search for the least valuable attacker: the first of pawn, knight, bishop, rook
  and queen of \<open>side\<close> among the current attackers, with its bitboard.
\<close>

definition see_least_attacker :: "Board \<Rightarrow> Color \<Rightarrow> BitBoard \<Rightarrow> (PieceType \<times> BitBoard) option" where
  "see_least_attacker b side currentAttackers =
     (if currentAttackers AND m_pieces b (side, PAWN) \<noteq> 0
        then Some (PAWN, currentAttackers AND m_pieces b (side, PAWN))
      else if currentAttackers AND m_pieces b (side, KNIGHT) \<noteq> 0
        then Some (KNIGHT, currentAttackers AND m_pieces b (side, KNIGHT))
      else if currentAttackers AND bishops b side \<noteq> 0
        then Some (BISHOP, currentAttackers AND bishops b side)
      else if currentAttackers AND rooks b side \<noteq> 0
        then Some (ROOK, currentAttackers AND rooks b side)
      else if currentAttackers AND queens b side \<noteq> 0
        then Some (QUEEN, currentAttackers AND queens b side)
      else None)"

text \<open>The attackers uncovered behind a capturing piece of the given type.\<close>

definition see_uncovered :: "Board \<Rightarrow> PieceType \<Rightarrow> nat \<Rightarrow> BitBoard \<Rightarrow> BitBoard" where
  "see_uncovered b pt to occ =
     (if pt = PAWN \<or> pt = BISHOP then xray_bishop b to occ
      else if pt = ROOK then xray_rook b to occ
      else if pt = QUEEN then xray_bishop b to occ OR xray_rook b to occ
      else 0)"

text \<open>
  The loop of \<open>SEE\<close>. Its state is the side that captured last, the occupancy, the
  attackers, the running result, the next value to lose, the sign \<open>modifier\<close> and the
  values recorded so far (\<open>valuesArr[0..i]\<close>). Each of the five branches for pawn to
  queen adds \<open>modifier * nextLoss\<close>, records the result, removes the attacker from the
  occupancy, adds the uncovered attackers and continues; the king ends the loop.
\<close>

function see_loop ::
  "Board \<Rightarrow> nat \<Rightarrow> Color \<Rightarrow> BitBoard \<Rightarrow> BitBoard \<Rightarrow> int \<Rightarrow> int \<Rightarrow> int \<Rightarrow> int list \<Rightarrow> int list" where
  "see_loop b to side0 occ attackers0 result nextLoss modifier0 valuesArr =
     (let side = Color_getOpposite side0;
          attackers = attackers0 AND occ;
          currentAttackers = see_currentAttackers b side occ attackers
      in if currentAttackers = 0 then valuesArr
         else
          (let modifier = - modifier0 in
           case see_least_attacker b side currentAttackers of
             Some (pt, bb) \<Rightarrow>
               (let result' = to_Value (result + modifier * nextLoss);
                    occ' = bb_clear occ (lsb bb)
                in see_loop b to side occ' (attackers OR see_uncovered b pt to occ')
                     result' (SIMPLIFIED_PIECE_VALUES (WHITE, pt)) modifier (valuesArr @ [result']))
           | None \<Rightarrow>
               (if (attackers AND m_piecesByColor b (Color_getOpposite side)) AND occ = 0 then
                  (if currentAttackers AND m_pieces b (side, KING) \<noteq> 0
                   then valuesArr @ [to_Value (result + modifier * nextLoss)]
                   else valuesArr @ [result])
                else valuesArr)))"
  by pat_completeness auto
termination
proof (relation "measure (\<lambda>(b, to, side0, occ, attackers0, result, nextLoss, modifier0, valuesArr). unat occ)",
       goal_cases)
  case 1
  show ?case by simp
next
  case (2 b to side0 occ attackers0 result nextLoss modifier0 valuesArr side attackers
          currentAttackers modifier x2 pt bb result' occ')
  have lsb_bit: "bit w (lsb w)" if "w \<noteq> 0" for w :: BitBoard
  proof -
    from that obtain i where i: "bit w i" by (auto simp: bit_eq_iff)
    then have "i < 64" by (auto dest: bit_imp_le_length)
    with i have "\<exists>j \<in> set [0..<64]. bit w j" by auto
    then obtain j where fj: "find (bit w) [0..<64] = Some j"
      by (cases "find (bit w) [0..<64]") (auto simp: find_None_iff)
    then have "bit w j" by (auto simp: find_Some_iff)
    with fj show ?thesis by (simp add: lsb_def)
  qed
  have clear_less: "unat (bb_clear w n) < unat w" if "bit w n" for w :: BitBoard and n
  proof -
    have le: "bb_clear w n \<le> w" unfolding bb_clear_def by (rule word_and_le2)
    have "\<not> bit (bb_clear w n) n"
      using that by (auto simp: bb_clear_def fromSquare_def bit_and_iff bit_not_iff bit_exp_iff
          dest: bit_imp_le_length)
    with that have "bb_clear w n \<noteq> w" by auto
    with le have "bb_clear w n < w" by simp
    then show ?thesis by (simp add: word_less_nat_alt)
  qed
  from 2 have cur: "currentAttackers = see_currentAttackers b side occ attackers"
    and att: "attackers = attackers0 AND occ"
    and pick: "see_least_attacker b side currentAttackers = Some (pt, bb)"
    and occ': "occ' = bb_clear occ (lsb bb)"
    by simp_all
  from pick have bb: "bb \<noteq> 0" and sub: "\<forall>n. bit bb n \<longrightarrow> bit currentAttackers n"
    by (auto simp: see_least_attacker_def bit_and_iff split: if_splits)
  have "\<forall>n. bit currentAttackers n \<longrightarrow> bit occ n"
    unfolding cur att see_currentAttackers_def Let_def by (auto simp: bit_and_iff)
  with sub lsb_bit[OF bb] have "bit occ (lsb bb)" by blast
  then show ?case unfolding occ' by (simp add: clear_less)
qed

text \<open>The fold of the recorded values from the tail, \<open>min\<close> at odd and \<open>max\<close> at even \<open>i\<close>.\<close>

fun see_fold :: "nat \<Rightarrow> int list \<Rightarrow> int list" where
  "see_fold 0 valuesArr = valuesArr"
| "see_fold (Suc k) valuesArr =
     see_fold k (valuesArr[k := (if odd (Suc k) then min (valuesArr ! k) (valuesArr ! Suc k)
                                 else max (valuesArr ! k) (valuesArr ! Suc k))])"

definition SEE :: "Board \<Rightarrow> Move \<Rightarrow> int" where
  "SEE b m =
     (let to = getTo m; from = getFrom m; occ = allPieces b in
      case getMoveType m of
        CASTLE \<Rightarrow> 0
      | mt \<Rightarrow>
         (let (result, nextLoss, occ) =
                (case mt of
                   PROMOTION \<Rightarrow>
                     (let nextLoss = SIMPLIFIED_PIECE_VALUES (WHITE, getPromotedPiece m) in
                      (to_Value (SIMPLIFIED_PIECE_VALUES (m_board b to) + nextLoss
                                 - SIMPLIFIED_PIECE_VALUES (WHITE, PAWN)),
                       nextLoss, bb_clear occ from))
                 | ENPASSANT \<Rightarrow>
                     (SIMPLIFIED_PIECE_VALUES (WHITE, PAWN), SIMPLIFIED_PIECE_VALUES (WHITE, PAWN),
                      bb_clear (bb_clear occ (Square_of (getFile to) (getRank from))) from)
                 | _ \<Rightarrow>
                     (SIMPLIFIED_PIECE_VALUES (m_board b to), SIMPLIFIED_PIECE_VALUES (m_board b from),
                      bb_clear occ from));
              valuesArr = see_loop b to (m_side b) occ (computeAllAttackersOf b to occ)
                            result nextLoss 1 [result]
          in hd (see_fold (length valuesArr - 1) valuesArr)))"


section \<open>Move generation (Chess/Board.cpp, Chess/MoveGenerationUtils.h)\<close>

datatype GenerationMode = ALL_MOVES | CAPTURES | CHECK_EVASIONS | QUIET_CHECKS

text \<open>
  A \<open>MoveList\<close> is the list of the moves emplaced so far (its 256 slots are asserted,
  not checked). The loops \<open>BB_FOR_EACH\<close> and \<open>while (bb) ... bb.pop()\<close> both pop the
  least significant square first.
\<close>

definition emplace_each :: "(nat \<Rightarrow> Move list) \<Rightarrow> BitBoard \<Rightarrow> Move list \<Rightarrow> Move list" where
  "emplace_each f bb moves = bb_for_each (\<lambda>sq ms. ms @ f sq) bb moves"

definition promotions_to :: "GenerationMode \<Rightarrow> Direction \<Rightarrow> nat \<Rightarrow> Move list" where
  "promotions_to mode back sq =
     Move_of (Square_shift sq back) sq PROMOTION QUEEN
     # (if mode \<noteq> CAPTURES
        then [Move_of (Square_shift sq back) sq PROMOTION ROOK,
              Move_of (Square_shift sq back) sq PROMOTION BISHOP,
              Move_of (Square_shift sq back) sq PROMOTION KNIGHT]
        else [])"

text \<open>\<open>generatePieceMoves<Side, Mode, PT>\<close>.\<close>

definition generatePieceMoves ::
  "Color \<Rightarrow> GenerationMode \<Rightarrow> PieceType \<Rightarrow> Board \<Rightarrow> BitBoard \<Rightarrow> BitBoard \<Rightarrow> Move list \<Rightarrow> Move list" where
  "generatePieceMoves side mode pt b allP trg moves =
     (let opponentSide = Color_getOpposite side;
          opponentKingAttacks =
            (if mode = QUIET_CHECKS then computeAttacksOf (side, pt) (king b opponentSide) allP else 0)
      in bb_for_each
           (\<lambda>sq ms.
              (let attacks = attacksOf pt sq allP AND trg;
                   attacks = (if mode = QUIET_CHECKS \<and> \<not> test (checkBlockers (state b) opponentSide) sq
                              then attacks AND opponentKingAttacks else attacks)
               in emplace_each (\<lambda>t. [Move_simple sq t]) attacks ms))
           (m_pieces b (side, pt)) moves)"

text \<open>The king's part of \<open>generateMoves<Side, Mode>\<close>.\<close>

definition gen_king :: "Color \<Rightarrow> GenerationMode \<Rightarrow> Board \<Rightarrow> BitBoard \<Rightarrow> Move list" where
  "gen_king side mode b trg =
     (let opponentSide = Color_getOpposite side;
          friendlyPieces = m_piecesByColor b side;
          kingSq = king b side
      in if mode \<noteq> QUIET_CHECKS \<or> test (checkBlockers (state b) opponentSide) kingSq then
           (let attacks = attacksOf KING kingSq (allPieces b)
                            AND (if mode \<noteq> CHECK_EVASIONS then trg else NOT friendlyPieces);
                attacks = (if mode = QUIET_CHECKS
                           then attacks AND NOT (pseudoAttacks QUEEN (king b opponentSide))
                           else attacks)
            in emplace_each (\<lambda>sq. [Move_simple kingSq sq]) attacks [])
         else [])"

text \<open>The pawn promotions.\<close>

definition gen_promotions ::
  "Color \<Rightarrow> GenerationMode \<Rightarrow> Board \<Rightarrow> BitBoard \<Rightarrow> BitBoard \<Rightarrow> Move list \<Rightarrow> Move list" where
  "gen_promotions side mode b enemyPieces trg moves =
     (let Up = makeRelativeDirection side UP;
          UpRight = makeRelativeDirection side UPRIGHT;
          UpLeft = makeRelativeDirection side UPLEFT;
          Down = makeRelativeDirection side DOWN;
          DownRight = makeRelativeDirection side DOWNRIGHT;
          DownLeft = makeRelativeDirection side DOWNLEFT;
          promotablePawns = m_pieces b (side, PAWN) AND fromRank (makeRelativeRank side 6)
      in if mode \<noteq> QUIET_CHECKS \<and> promotablePawns \<noteq> 0 then
           (let upPromotions = shift promotablePawns Up AND NOT (allPieces b);
                upLeftPromotions = shift promotablePawns UpLeft AND enemyPieces;
                upRightPromotions = shift promotablePawns UpRight AND enemyPieces;
                upPromotions = (if mode = CHECK_EVASIONS then upPromotions AND trg else upPromotions);
                moves = emplace_each (promotions_to mode Down) upPromotions moves;
                moves = emplace_each (promotions_to mode DownRight) upLeftPromotions moves
            in emplace_each (promotions_to mode DownLeft) upRightPromotions moves)
         else moves)"

text \<open>The pawn captures, with the capture en passant.\<close>

definition gen_pawn_captures ::
  "Color \<Rightarrow> GenerationMode \<Rightarrow> Board \<Rightarrow> BitBoard \<Rightarrow> Move list \<Rightarrow> Move list" where
  "gen_pawn_captures side mode b enemyPieces moves =
     (let UpRight = makeRelativeDirection side UPRIGHT;
          UpLeft = makeRelativeDirection side UPLEFT;
          DownRight = makeRelativeDirection side DOWNRIGHT;
          DownLeft = makeRelativeDirection side DOWNLEFT;
          bb = m_pieces b (side, PAWN);
          promotablePawns = bb AND fromRank (makeRelativeRank side 6);
          nonPromotablePawns = bb XOR promotablePawns
      in if mode \<noteq> QUIET_CHECKS \<and> nonPromotablePawns \<noteq> 0 then
           (let upLeftCaptures = shift nonPromotablePawns UpLeft AND enemyPieces;
                upRightCaptures = shift nonPromotablePawns UpRight AND enemyPieces;
                moves = emplace_each (\<lambda>sq. [Move_simple (Square_shift sq DownRight) sq]) upLeftCaptures moves;
                moves = emplace_each (\<lambda>sq. [Move_simple (Square_shift sq DownLeft) sq]) upRightCaptures moves
            in if ep (state b) \<noteq> NO_POS then
                 emplace_each (\<lambda>sq. [Move_of sq (ep (state b)) ENPASSANT KNIGHT])
                   (bb AND pawnAttackedSquares (Color_getOpposite side) (fromSquare (ep (state b))))
                   moves
               else moves)
         else moves)"

text \<open>The quiet pawn moves.\<close>

definition gen_quiet_pawn ::
  "Color \<Rightarrow> GenerationMode \<Rightarrow> Board \<Rightarrow> BitBoard \<Rightarrow> Move list \<Rightarrow> Move list" where
  "gen_quiet_pawn side mode b trg moves =
     (let opponentSide = Color_getOpposite side;
          Up = makeRelativeDirection side UP;
          Down = makeRelativeDirection side DOWN;
          bb = m_pieces b (side, PAWN);
          promotablePawns = bb AND fromRank (makeRelativeRank side 6);
          nonPromotablePawns = bb XOR promotablePawns;
          emptySquares = NOT (allPieces b)
      in if mode \<noteq> CAPTURES then
           (let singlePawnPush = shift nonPromotablePawns Up AND emptySquares;
                doublePawnPush =
                  shift (singlePawnPush AND fromRank (makeRelativeRank side 2)) Up AND emptySquares;
                (singlePawnPush, doublePawnPush) =
                  (if mode = CHECK_EVASIONS then (singlePawnPush AND trg, doublePawnPush AND trg)
                   else if mode = QUIET_CHECKS then
                     (let opponentKingSq = king b opponentSide;
                          pawnToKingAttacks = pawnAttacks opponentSide opponentKingSq;
                          pawnsBlockingCheck =
                            shift (checkBlockers (state b) opponentSide
                                   AND NOT (fromFile (getFile opponentKingSq))) Up
                      in (singlePawnPush AND (pawnToKingAttacks OR pawnsBlockingCheck),
                          doublePawnPush AND (pawnToKingAttacks OR shift pawnsBlockingCheck Up)))
                   else (singlePawnPush, doublePawnPush));
                moves = emplace_each (\<lambda>sq. [Move_simple (Square_shift sq Down) sq]) singlePawnPush moves
            in emplace_each (\<lambda>sq. [Move_simple (Square_shift (Square_shift sq Down) Down) sq])
                 doublePawnPush moves)
         else moves)"

text \<open>The castlings.\<close>

definition gen_castlings :: "Color \<Rightarrow> GenerationMode \<Rightarrow> Board \<Rightarrow> Move list \<Rightarrow> Move list" where
  "gen_castlings side mode b moves =
     (if mode = ALL_MOVES then
        (let kingSq = king b side;
             moves = (if hasCastleRight (castleRight (state b)) KING_CASTLE side
                         \<and> castlingInternalSquares side KING_CASTLE AND allPieces b = 0
                      then moves @ [Move_of kingSq (Square_of 6 (makeRelativeRank side 0)) CASTLE KNIGHT]
                      else moves)
         in if hasCastleRight (castleRight (state b)) QUEEN_CASTLE side
               \<and> castlingInternalSquares side QUEEN_CASTLE AND allPieces b = 0
            then moves @ [Move_of kingSq (Square_of 2 (makeRelativeRank side 0)) CASTLE KNIGHT]
            else moves)
      else moves)"

text \<open>\<open>generateMoves<Side, Mode>\<close>.\<close>

definition generateMoves_side :: "Color \<Rightarrow> GenerationMode \<Rightarrow> Board \<Rightarrow> Move list" where
  "generateMoves_side side mode b =
     (let opponentSide = Color_getOpposite side;
          friendlyPieces = m_piecesByColor b side;
          enemyPieces = (if mode = CHECK_EVASIONS then checkGivers (state b)
                         else m_piecesByColor b opponentSide);
          allP = allPieces b;
          trg = (case mode of
                   CAPTURES \<Rightarrow> enemyPieces
                 | CHECK_EVASIONS \<Rightarrow> betweenBits (king b side) (lsb (checkGivers (state b)))
                 | QUIET_CHECKS \<Rightarrow> NOT allP
                 | ALL_MOVES \<Rightarrow> NOT friendlyPieces);
          moves = gen_king side mode b trg
      in if mode = CHECK_EVASIONS \<and> hasMoreThanOne (checkGivers (state b)) then moves
         else
          (let moves = gen_promotions side mode b enemyPieces trg moves;
               moves = gen_pawn_captures side mode b enemyPieces moves;
               moves = gen_quiet_pawn side mode b trg moves;
               moves = generatePieceMoves side mode KNIGHT b allP trg moves;
               moves = generatePieceMoves side mode BISHOP b allP trg moves;
               moves = generatePieceMoves side mode ROOK b allP trg moves;
               moves = generatePieceMoves side mode QUEEN b allP trg moves
           in gen_castlings side mode b moves))"

text \<open>\<open>generateMoves<Mode>\<close>: in check, only the evasions are generated.\<close>

definition generateMoves :: "GenerationMode \<Rightarrow> Board \<Rightarrow> Move list" where
  "generateMoves mode b =
     (if mode = QUIET_CHECKS then generateMoves_side (m_side b) QUIET_CHECKS b
      else if mode \<noteq> CHECK_EVASIONS \<and> isInCheck b then generateMoves_side (m_side b) CHECK_EVASIONS b
      else generateMoves_side (m_side b) mode b)"

section \<open>Moves from strings (Board::makeMoveFromString)\<close>

text \<open>
  The loop over the generated moves: the first move with the given squares decides. An
  illegal one gives the null move, a promotion is rebuilt with the piece of the fifth
  character, or a knight when the string has no fifth character, and any other move is
  returned as generated.
\<close>

fun find_move :: "Board \<Rightarrow> string \<Rightarrow> nat \<Rightarrow> nat \<Rightarrow> Move list \<Rightarrow> Move" where
  "find_move b str from to [] = makeNullMove"
| "find_move b str from to (m # moves) =
     (if getFrom m = from \<and> getTo m = to then
        (if \<not> isLegal b m then makeNullMove
         else if getMoveType m = PROMOTION then
           Move_of from to PROMOTION
             (if length str > 4 then getType (Piece_fromFENChar (str ! 4)) else KNIGHT)
         else m)
      else find_move b str from to moves)"

definition makeMoveFromString :: "Board \<Rightarrow> string \<Rightarrow> Move" where
  "makeMoveFromString b str =
     (if length str < 4 \<and> str \<noteq> ''0-0'' then makeNullMove
      else
       (let (from, to) =
              (if str = ''0-0'' then (makeRelativeSquare (m_side b) 4, makeRelativeSquare (m_side b) 6)
               else if str = ''0-0-0''
                 then (makeRelativeSquare (m_side b) 4, makeRelativeSquare (m_side b) 2)
               else (Square_fromChars (str ! 0) (str ! 1), Square_fromChars (str ! 2) (str ! 3)))
        in if \<not> test (m_piecesByColor b (m_side b)) from \<or> test (m_piecesByColor b (m_side b)) to
              \<or> from = to
           then makeNullMove
           else find_move b str from to (generateMoves ALL_MOVES b)))"

section \<open>Counting trailing zeros of a numeral\<close>

text \<open>
  \<open>ctz2 k\<close> is two more than the number of trailing zero bits of the numeral \<open>k\<close>; it
  serves to evaluate \<open>lsb\<close> on a literal bitboard.
\<close>

fun ctz2 :: "num \<Rightarrow> nat" where
  "ctz2 num.One = 2"
| "ctz2 (num.Bit1 n) = 2"
| "ctz2 (num.Bit0 n) = ctz2 n + 1"


section \<open>Concrete tables used in the evaluations below\<close>

text \<open>
  A cluster whose main entry is live (non-zero type, younger than the root age 0),
  was searched to depth 5 and holds an \<open>EXACT\<close> bound under hash 1.
\<close>

definition exact_depth5_cluster :: TableEntryCluster where
  "exact_depth5_cluster =
     \<lparr>mainEntry = \<lparr>e_hash = 1, e_move = 0, e_value = 0, e_age = 10, e_depth = 5, e_type = EXACT\<rparr>,
      auxEntry = zero_entry\<rparr>"

text \<open>
  A table of four clusters, each with a live main entry of depth 9 under hash 1, and
  root age 0.
\<close>

definition deep_main_table :: TranspositionTable where
  "deep_main_table =
     \<lparr>s_table = (\<lambda>_. \<lparr>mainEntry = \<lparr>e_hash = 1, e_move = 0, e_value = 0, e_age = 5,
                                       e_depth = 9, e_type = EXACT\<rparr>,
                         auxEntry = zero_entry\<rparr>),
      s_tableSize = 4, s_rootAge = 0\<rparr>"

text \<open>Every entry of a table is either still the cleared entry or has a non-zero type.\<close>

definition entry_ok :: "TableEntry \<Rightarrow> bool" where
  "entry_ok e \<longleftrightarrow> (e_type e = 0 \<longrightarrow> e = zero_entry)"

definition tt_ok :: "TranspositionTable \<Rightarrow> bool" where
  "tt_ok tt \<longleftrightarrow> (\<forall>i. entry_ok (mainEntry (s_table tt i)) \<and> entry_ok (auxEntry (s_table tt i)))"

section \<open>Arithmetic helpers\<close>

lemma to_Value_small: "- 32768 \<le> x \<Longrightarrow> x < 32768 \<Longrightarrow> to_Value x = x"
  unfolding to_Value_def by (simp add: sint_sbintrunc' signed_take_bit_int_eq_self)

lemma to_time_t_small: "- (2 ^ 63) \<le> x \<Longrightarrow> x < 2 ^ 63 \<Longrightarrow> to_time_t x = x"
  unfolding to_time_t_def by (simp add: sint_sbintrunc' signed_take_bit_int_eq_self)

lemma cdiv_nonneg: "0 \<le> a \<Longrightarrow> 0 < b \<Longrightarrow> cdiv a b = a div b"
  by (cases "a = 0") (simp_all add: cdiv_def)

section \<open>Transposition table: recorded types\<close>

lemma recorded_type_cases: "recorded_type r c nt \<in> {2, 3, 4, 5, 6, 7}"
  by (cases nt)
     (simp_all add: recorded_type_def search_entryType_def NodeType_u8_def BETA_def EXACT_def
        ALPHA_def)

lemma recorded_type_nonzero: "recorded_type r c nt \<noteq> 0"
  using recorded_type_cases [of r c nt] by auto

lemma recorded_type_bound: "recorded_type r c nt AND 6 \<in> {EXACT, BETA, ALPHA}"
  by (cases nt)
     (simp_all add: recorded_type_def search_entryType_def NodeType_u8_def BETA_def EXACT_def
        ALPHA_def)

lemma tt_ok_init: "tt_ok (tt_init n)"
  by (simp add: tt_ok_def tt_init_def entry_ok_def)

lemma tryRecord_cluster_ok:
  assumes "ty \<noteq> 0" "entry_ok (mainEntry c)" "entry_ok (auxEntry c)"
  shows "entry_ok (mainEntry (tryRecord_cluster ra ty h mv v a d ply c))
       \<and> entry_ok (auxEntry (tryRecord_cluster ra ty h mv v a d ply c))"
  using assms by (simp add: tryRecord_cluster_def entry_ok_def)

lemma search_record_ok: "tt_ok tt \<Longrightarrow> tt_ok (search_record w tt)"
  unfolding tt_ok_def search_record_def tryRecord_def Let_def
  using tryRecord_cluster_ok [OF recorded_type_nonzero]
  by (simp add: fun_upd_def)

lemma fold_search_record_ok: "tt_ok tt \<Longrightarrow> tt_ok (fold search_record ws tt)"
  by (induction ws arbitrary: tt) (simp_all add: search_record_ok)

lemma setRootAge_ok: "tt_ok tt \<Longrightarrow> tt_ok (setRootAge a tt)"
  by (simp add: tt_ok_def setRootAge_def)

lemma rootSearch_table_ok: "tt_ok tt \<Longrightarrow> tt_ok (rootSearch_table rs tt)"
  by (simp add: rootSearch_table_def fold_search_record_ok setRootAge_ok)

lemma searches_table_ok: "tt_ok tt \<Longrightarrow> tt_ok (searches_table rss tt)"
  unfolding searches_table_def
  by (induction rss arbitrary: tt) (simp_all add: rootSearch_table_ok)

lemma tryRecord_cluster_writes_type:
  "(mainEntry (tryRecord_cluster ra ty h mv v a d ply c) = mainEntry c
      \<or> e_type (mainEntry (tryRecord_cluster ra ty h mv v a d ply c)) = ty)
   \<and> (auxEntry (tryRecord_cluster ra ty h mv v a d ply c) = auxEntry c
      \<or> e_type (auxEntry (tryRecord_cluster ra ty h mv v a d ply c)) = ty)"
  by (simp add: tryRecord_cluster_def)

lemma search_record_writes_type:
  "(mainEntry (s_table (search_record w tt) i) = mainEntry (s_table tt i)
      \<or> e_type (mainEntry (s_table (search_record w tt) i))
           = recorded_type (w_raisedAlpha w) (w_betaCut w) (w_nt w))
   \<and> (auxEntry (s_table (search_record w tt) i) = auxEntry (s_table tt i)
      \<or> e_type (auxEntry (s_table (search_record w tt) i))
           = recorded_type (w_raisedAlpha w) (w_betaCut w) (w_nt w))"
  using tryRecord_cluster_writes_type
  by (simp add: search_record_def tryRecord_def Let_def)

text \<open>
  C10. The type recorded by \<open>search\<close> is never zero and always carries one of the bound
  values \<open>EXACT\<close>, \<open>BETA\<close>, \<open>ALPHA\<close> in its bits \<open>0b110\<close>. A record of \<open>search\<close> leaves
  every entry of the table as it was or gives it exactly that recorded type. Hence, in a
  table cleared by \<open>init\<close> and then used by any sequence of root searches, each setting
  its own root age and recording any sequence of nodes, an entry (main or auxiliary) whose
  type is zero is still the cleared, never-written entry: the test \<open>type == 0\<close> does not
  mistake a written entry for an empty one.
\<close>

theorem zero_type_means_never_written:
  "recorded_type r c nt \<noteq> 0
   \<and> recorded_type r c nt AND 6 \<in> {EXACT, BETA, ALPHA}
   \<and> (\<forall>i. (mainEntry (s_table (search_record w tt) i) = mainEntry (s_table tt i)
             \<or> e_type (mainEntry (s_table (search_record w tt) i))
                  = recorded_type (w_raisedAlpha w) (w_betaCut w) (w_nt w))
          \<and> (auxEntry (s_table (search_record w tt) i) = auxEntry (s_table tt i)
             \<or> e_type (auxEntry (s_table (search_record w tt) i))
                  = recorded_type (w_raisedAlpha w) (w_betaCut w) (w_nt w)))
   \<and> (\<forall>i. (e_type (mainEntry (s_table (searches_table rss (tt_init n)) i)) = 0
             \<longrightarrow> mainEntry (s_table (searches_table rss (tt_init n)) i) = zero_entry)
          \<and> (e_type (auxEntry (s_table (searches_table rss (tt_init n)) i)) = 0
             \<longrightarrow> auxEntry (s_table (searches_table rss (tt_init n)) i) = zero_entry))"
proof (intro conjI)
  show "recorded_type r c nt \<noteq> 0" by (rule recorded_type_nonzero)
  show "recorded_type r c nt AND 6 \<in> {EXACT, BETA, ALPHA}" by (rule recorded_type_bound)
  show "\<forall>i. (mainEntry (s_table (search_record w tt) i) = mainEntry (s_table tt i)
             \<or> e_type (mainEntry (s_table (search_record w tt) i))
                  = recorded_type (w_raisedAlpha w) (w_betaCut w) (w_nt w))
          \<and> (auxEntry (s_table (search_record w tt) i) = auxEntry (s_table tt i)
             \<or> e_type (auxEntry (s_table (search_record w tt) i))
                  = recorded_type (w_raisedAlpha w) (w_betaCut w) (w_nt w))"
    using search_record_writes_type by blast
  show "\<forall>i. (e_type (mainEntry (s_table (searches_table rss (tt_init n)) i)) = 0
             \<longrightarrow> mainEntry (s_table (searches_table rss (tt_init n)) i) = zero_entry)
          \<and> (e_type (auxEntry (s_table (searches_table rss (tt_init n)) i)) = 0
             \<longrightarrow> auxEntry (s_table (searches_table rss (tt_init n)) i) = zero_entry)"
    using searches_table_ok [OF tt_ok_init, of rss n]
    by (simp add: tt_ok_def entry_ok_def)
qed

text \<open>
  Two root searches on a table of four clusters. The first, at move count 3, records a
  PV node of depth 4 under hash 6; the second, at move count 9, finds that main entry
  aged and overwrites it with a non-PV fail-high of depth 1 under hash 10. The auxiliary
  entry of the cluster was never written and is the only one of the two with type zero.
\<close>

theorem zero_type_means_never_written_witness:
  "e_type (auxEntry (s_table (searches_table
       [\<lparr>rs_moveCount = 3, rs_writes =
           [\<lparr>w_raisedAlpha = True, w_betaCut = False, w_nt = NodeType_PV, w_hash = 6,
             w_move = 77, w_value = 15, w_age = 3, w_depth = 4, w_ply = 2\<rparr>]\<rparr>,
        \<lparr>rs_moveCount = 9, rs_writes =
           [\<lparr>w_raisedAlpha = False, w_betaCut = True, w_nt = NodeType_NON_PV, w_hash = 10,
             w_move = 5, w_value = 40, w_age = 9, w_depth = 1, w_ply = 3\<rparr>]\<rparr>]
       (tt_init 4)) 2)) = 0
   \<and> auxEntry (s_table (searches_table
       [\<lparr>rs_moveCount = 3, rs_writes =
           [\<lparr>w_raisedAlpha = True, w_betaCut = False, w_nt = NodeType_PV, w_hash = 6,
             w_move = 77, w_value = 15, w_age = 3, w_depth = 4, w_ply = 2\<rparr>]\<rparr>,
        \<lparr>rs_moveCount = 9, rs_writes =
           [\<lparr>w_raisedAlpha = False, w_betaCut = True, w_nt = NodeType_NON_PV, w_hash = 10,
             w_move = 5, w_value = 40, w_age = 9, w_depth = 1, w_ply = 3\<rparr>]\<rparr>]
       (tt_init 4)) 2) = zero_entry
   \<and> e_type (mainEntry (s_table (searches_table
       [\<lparr>rs_moveCount = 3, rs_writes =
           [\<lparr>w_raisedAlpha = True, w_betaCut = False, w_nt = NodeType_PV, w_hash = 6,
             w_move = 77, w_value = 15, w_age = 3, w_depth = 4, w_ply = 2\<rparr>]\<rparr>,
        \<lparr>rs_moveCount = 9, rs_writes =
           [\<lparr>w_raisedAlpha = False, w_betaCut = True, w_nt = NodeType_NON_PV, w_hash = 10,
             w_move = 5, w_value = 40, w_age = 9, w_depth = 1, w_ply = 3\<rparr>]\<rparr>]
       (tt_init 4)) 2)) = 4"
  using zero_type_means_never_written [of True False NodeType_PV
      "\<lparr>w_raisedAlpha = True, w_betaCut = False, w_nt = NodeType_PV, w_hash = 6,
        w_move = 77, w_value = 15, w_age = 3, w_depth = 4, w_ply = 2\<rparr>" "tt_init 4"
      "[\<lparr>rs_moveCount = 3, rs_writes =
           [\<lparr>w_raisedAlpha = True, w_betaCut = False, w_nt = NodeType_PV, w_hash = 6,
             w_move = 77, w_value = 15, w_age = 3, w_depth = 4, w_ply = 2\<rparr>]\<rparr>,
        \<lparr>rs_moveCount = 9, rs_writes =
           [\<lparr>w_raisedAlpha = False, w_betaCut = True, w_nt = NodeType_NON_PV, w_hash = 10,
             w_move = 5, w_value = 40, w_age = 9, w_depth = 1, w_ply = 3\<rparr>]\<rparr>]" 4]
  by (simp add: searches_table_def rootSearch_table_def setRootAge_def search_record_def
        tryRecord_def tryRecord_cluster_def replaces_main_def
        tt_init_def zero_entry_def recorded_type_def search_entryType_def NodeType_u8_def
        EXACT_def BETA_def Let_def fix_mate_on_write_def isMateValue_def MATE_def
        MAX_DEPTH_def)

section \<open>Transposition table: replacement policy\<close>

text \<open>
  C5. Evaluation of \<open>tryRecord\<close> on a cluster whose main entry is live, of depth 5, with an
  \<open>EXACT\<close> bound, when a record of the same depth and the same (non-PV) status arrives
  with the looser bound \<open>ALPHA\<close> under another hash: the main entry is overwritten and
  the auxiliary entry stays untouched, because the mask \<open>0x110\<close> erases the bound of the
  new record before it is compared.
\<close>

theorem tryRecord_looser_bound_overwrites_main:
  "tryRecord_cluster 0 ALPHA 5 0 0 10 5 0 exact_depth5_cluster
     = \<lparr>mainEntry = \<lparr>e_hash = 5, e_move = 0, e_value = 0, e_age = 10, e_depth = 5, e_type = ALPHA\<rparr>,
        auxEntry = zero_entry\<rparr>"
  by (simp add: tryRecord_cluster_def replaces_main_def exact_depth5_cluster_def getBoundType_def
        EXACT_def ALPHA_def PV_def fix_mate_on_write_def isMateValue_def MATE_def MAX_DEPTH_def)

section \<open>Transposition table: mate values\<close>

text \<open>
  On the main entry the two ply adjustments compose: a mate value written at ply \<open>p\<close>
  and probed at ply \<open>p'\<close> comes back shifted by \<open>p' - p\<close> plies away from the mate.
\<close>

lemma main_mate_value_roundtrip:
  assumes "isMateValue v" "0 \<le> p" "0 \<le> p'" "p' \<le> 2 * MAX_DEPTH" "p \<le> 2 * MAX_DEPTH"
    "v > 0 \<Longrightarrow> v + p \<le> MATE" "v < 0 \<Longrightarrow> - MATE \<le> v - p"
  shows "fix_mate_on_probe (fix_mate_on_write v p) p'
           = (if v > 0 then v - (p' - p) else v + (p' - p))"
  using assms
  by (auto simp add: fix_mate_on_probe_def fix_mate_on_write_def isMateValue_def MATE_def
        MAX_DEPTH_def to_Value_small)

text \<open>
  C7. Evaluation of a write that lands in the auxiliary entry: the score \<open>MATE - 10\<close>
  recorded at ply 4 (the main entry is deeper and holds another hash) is stored without
  the ply offset, and the probe at ply 6 returns \<open>MATE - 16\<close>, where the mate distance
  relative to the probing node asks for \<open>MATE - (10 + (6 - 4)) = MATE - 12\<close>.
\<close>

theorem aux_mate_value_not_ply_relative:
  "map_option (\<lambda>e. fix_mate_on_probe (e_value e) 6)
      (probe (tryRecord EXACT 5 0 (MATE - 10) 5 3 4 deep_main_table) 5) = Some (MATE - 16)"
  by (simp add: probe_def tryRecord_def tryRecord_cluster_def deep_main_table_def
        replaces_main_def EXACT_def PV_def getBoundType_def fix_mate_on_probe_def
        isMateValue_def MATE_def MAX_DEPTH_def to_Value_small Let_def)

section \<open>Null-move pruning\<close>

lemma null_move_R_eq:
  assumes "staticEval \<ge> beta" "depth \<ge> 2"
  shows "null_move_R depth staticEval beta
           = 3 + (depth - 2) div 5 + max ((staticEval - beta) div 300) 0"
proof -
  have a: "cdiv (depth - 2) 5 = (depth - 2) div 5"
    using assms by (simp add: cdiv_nonneg)
  have b: "cdiv (staticEval - beta) 300 = (staticEval - beta) div 300"
    using assms by (simp add: cdiv_nonneg)
  have c: "0 \<le> (depth - 2) div 5"
    using assms by simp
  show ?thesis
    unfolding null_move_R_def Let_def NULLMOVE_DEPTH_REDUCTION_BASE_def MIN_NULLMOVE_DEPTH_def
      NULLMOVE_HIGH_DEPTH_DENOMINATOR_def NULLMOVE_BETA_DIFFERENCE_DENOMINATOR_def a b
    using c by simp
qed

text \<open>
  C4, as stated, fails. At a non-PV node of depth 6 (above the futility depths), not in
  check, with non-pawn material, window \<open>(-1, 0)\<close> and a static evaluation of 300, the
  code reduces by 4 where the formula with \<open>min(0, \<dots>)\<close> reduces by 3: the null-move
  search, which here answers with its own depth negated, is run at depth \<open>6 - 4 = 2\<close>,
  not at depth \<open>6 - 3 = 3\<close>.
\<close>

theorem null_move_R_counterexample:
  "null_move_R 6 300 0 = 4 \<and> spec_null_move_R 6 300 0 = 3
   \<and> prunings (\<lambda>a b p. 0) (\<lambda>a b d p. - d) (\<lambda>a b d p. 10) False NodeType_NON_PV False True
        300 (- 1) 0 6 1 = Some 2"
  by (simp add: prunings_def null_move_R_def spec_null_move_R_def cdiv_def Let_def
        NULLMOVE_DEPTH_REDUCTION_BASE_def MIN_NULLMOVE_DEPTH_def
        NULLMOVE_HIGH_DEPTH_DENOMINATOR_def NULLMOVE_BETA_DIFFERENCE_DENOMINATOR_def
        MIN_NULLMOVE_VERIFICATION_DEPTH_def to_Value_small isMateValue_def MATE_def
        MAX_DEPTH_def)

text \<open>
  C4, amended. At a non-PV node not in check, when the static evaluation is at least
  beta, depth is at least 2 and the side to move has non-pawn material, the futility
  tests come first at depths 2 to 4, with the margins 200, 400 and 700: a static
  evaluation of at most \<open>alpha - margin\<close> returns the quiescence value, one of at least
  \<open>beta + margin\<close> returns beta. Otherwise a null move is searched with the zero window
  \<open>(-beta, -beta + 1)\<close> at depth \<open>depth - R\<close> and ply \<open>ply + 1\<close>, where
  \<open>R = 3 + (depth - 2) / 5 + max((staticEval - beta) / 300, 0)\<close>. If the search was
  stopped meanwhile the node returns alpha. If the negated value of the null-move search
  is below beta the node goes on to the move loop. If it is at least beta and depth is at
  least 5, a zero-window search \<open>(beta - 1, beta)\<close> of the unchanged position at the same
  reduced depth and the same ply verifies it: the fail-high is returned when the
  verification is at least beta too, otherwise the node goes on. Below depth 5 the
  fail-high is returned directly. A returned mate value is replaced by beta.
\<close>

theorem null_move_pruning_max:
  assumes "nt \<noteq> NodeType_PV" "\<not> inCheck" "staticEval \<ge> beta" "depth \<ge> 2" "nonPawns"
  shows "prunings quiescence_here search_after_null search_here mustStop nt inCheck nonPawns
           staticEval alpha beta depth ply =
     (let margin = (if depth = 2 then 200 else if depth = 3 then 400 else 700) in
      if depth \<le> 4 \<and> staticEval \<le> alpha - margin then Some (quiescence_here alpha beta ply)
      else if depth \<le> 4 \<and> staticEval \<ge> beta + margin then Some beta
      else
       (let R = 3 + (depth - 2) div 5 + max ((staticEval - beta) div 300) 0;
            tmp = to_Value (- search_after_null (to_Value (- beta)) (to_Value (- beta + 1))
                                (depth - R) (ply + 1))
        in if mustStop then Some alpha
           else if tmp < beta then None
           else if depth \<ge> 5 then
             (if search_here (to_Value (beta - 1)) beta (depth - R) ply \<ge> beta
              then Some (if isMateValue tmp then beta else tmp) else None)
           else Some (if isMateValue tmp then beta else tmp)))"
proof -
  have m: "depth \<le> 4 \<Longrightarrow>
      FUTILITY_MARGIN depth = (if depth = 2 then 200 else if depth = 3 then 400 else 700)"
  proof -
    assume "depth \<le> 4"
    with assms(4) have "depth = 2 \<or> depth = 3 \<or> depth = 4" by arith
    then show ?thesis by (auto simp add: FUTILITY_MARGIN_def)
  qed
  show ?thesis
  proof (cases "depth \<le> 4")
    case True
    show ?thesis
      using assms True
      by (simp add: prunings_def m [OF True] null_move_R_eq Let_def MIN_NULLMOVE_DEPTH_def
            MIN_NULLMOVE_VERIFICATION_DEPTH_def not_less)
  next
    case False
    show ?thesis
      using assms False
      by (simp add: prunings_def null_move_R_eq Let_def MIN_NULLMOVE_DEPTH_def
            MIN_NULLMOVE_VERIFICATION_DEPTH_def not_less)
  qed
qed

theorem null_move_pruning_max_witness:
  "prunings (\<lambda>a b p. 0) (\<lambda>a b d p. - 50) (\<lambda>a b d p. 10) False NodeType_NON_PV False True
       300 (- 1) 0 6 1 = Some 50
   \<and> prunings (\<lambda>a b p. 0) (\<lambda>a b d p. - 50) (\<lambda>a b d p. 10) False NodeType_NON_PV False True
       300 (- 1) 0 3 1 = Some 50
   \<and> prunings (\<lambda>a b p. 0) (\<lambda>a b d p. - 50) (\<lambda>a b d p. 10) False NodeType_NON_PV False True
       300 (- 1) 0 2 1 = Some 0"
  using null_move_pruning_max [of NodeType_NON_PV False 0 300 6 True
      "\<lambda>a b p. 0" "\<lambda>a b d p. - 50" "\<lambda>a b d p. 10" False "- 1" 1]
    null_move_pruning_max [of NodeType_NON_PV False 0 300 3 True
      "\<lambda>a b p. 0" "\<lambda>a b d p. - 50" "\<lambda>a b d p. 10" False "- 1" 1]
    null_move_pruning_max [of NodeType_NON_PV False 0 300 2 True
      "\<lambda>a b p. 0" "\<lambda>a b d p. - 50" "\<lambda>a b d p. 10" False "- 1" 1]
  by (simp add: to_Value_small isMateValue_def MATE_def MAX_DEPTH_def)

section \<open>Limits\<close>

lemma self_play_adjust:
  assumes "0 \<le> now" "now < 2 ^ 62" "0 \<le> d" "d < 2 ^ 62"
  shows "to_time_t (now + max (to_size_t d div 10) 100) = now + max (d div 10) 100"
proof -
  have "d mod 2 ^ 64 = d"
    using assms(3,4) by (intro mod_pos_pos_trivial) simp_all
  then have e: "to_size_t d = d" by (simp add: to_size_t_def)
  have "d div 10 \<le> d" using assms(3) by simp
  then have m: "max (d div 10) 100 \<le> max d 100" by simp
  have "max d 100 < 2 ^ 62" using assms(4) by simp
  with m have m': "max (d div 10) 100 < 2 ^ 62" by linarith
  have m0: "0 \<le> max (d div 10) 100" by simp
  have "now + max (d div 10) 100 < 2 ^ 63" using assms(2) m' by simp
  moreover have "- (2 ^ 63) \<le> now + max (d div 10) 100"
  proof -
    have "0 \<le> now + max (d div 10) 100" using assms(1) m0 by linarith
    moreover have "- (2 ^ 63) \<le> (0::int)" by simp
    ultimately show ?thesis by (rule order_trans[rotated])
  qed
  ultimately show ?thesis unfolding e by (rule to_time_t_small[rotated])
qed


lemma compute_keeps_start:
  "m_start (computeConventionalTimeLimits T l) = m_start l"
  "m_start (computeIncrementalTimeLimits T l) = m_start l"
  "m_start (computeExactTimePerMove T l) = m_start l"
  by (simp_all add: computeConventionalTimeLimits_def computeIncrementalTimeLimits_def
        computeExactTimePerMove_def Let_def)

lemma reset_False:
  "reset now False T l =
     (if m_timeControlMoves l \<noteq> 0 \<and> m_baseTime l \<noteq> 0
        then computeConventionalTimeLimits T (l\<lparr>m_start := now\<rparr>)
      else if m_baseTime l \<noteq> 0 then computeIncrementalTimeLimits T (l\<lparr>m_start := now\<rparr>)
      else if m_incTime l \<noteq> 0 then computeExactTimePerMove T (l\<lparr>m_start := now\<rparr>)
      else l\<lparr>m_start := now\<rparr>)"
  by (simp add: reset_def Let_def)

lemma reset_start: "m_start (reset now False T l) = now"
  unfolding reset_False by (simp add: compute_keeps_start)

lemma reset_True:
  "reset now True T l =
     (reset now False T l)
       \<lparr>m_softBreak := to_time_t (m_start (reset now False T l)
            + max (to_size_t (m_softBreak (reset now False T l) - m_start (reset now False T l)) div 10) 100),
        m_hardBreak := to_time_t (m_start (reset now False T l)
            + max (to_size_t (m_hardBreak (reset now False T l) - m_start (reset now False T l)) div 10) 100)\<rparr>"
  by (simp only: reset_def Let_def if_True if_False)

lemma reset_self:
  "m_softBreak (reset now True T l) =
     to_time_t (now + max (to_size_t (m_softBreak (reset now False T l) - now) div 10) 100)"
  "m_hardBreak (reset now True T l) =
     to_time_t (now + max (to_size_t (m_hardBreak (reset now False T l) - now) div 10) 100)"
  unfolding reset_True reset_start by simp_all

lemma reset_incremental:
  assumes "m_timeControlMoves l = 0" "m_baseTime l \<noteq> 0"
  shows "reset now False T l = computeIncrementalTimeLimits T (l\<lparr>m_start := now\<rparr>)"
  using assms by (simp add: reset_def Let_def)

lemma reset_exact:
  assumes "m_baseTime l = 0" "m_incTime l \<noteq> 0"
  shows "reset now False T l = computeExactTimePerMove T (l\<lparr>m_start := now\<rparr>)"
  using assms by (simp add: reset_def Let_def)

lemma incremental_budget:
  assumes "0 < T" "0 \<le> m_incTime l"
  shows "incremental_msPerMove T l = min (m_incTime l + T div 40) T"
  using assms by (simp add: incremental_msPerMove_def GAME_LENGTH_FACTOR_def cdiv_nonneg)

text \<open>
  C8, as stated, fails: with the default limits (base 60 s, increment 3 s, no control
  moves) and 1000 ms left, the soft break is 500 ms after the start, not half of
  \<open>increment + T/40 = 3025\<close> ms.
\<close>

theorem reset_incremental_counterexample:
  "m_softBreak (reset 0 False 1000 default_Limits) = 500
   \<and> 0 + cdiv (spec_incremental_msPerMove 1000 default_Limits) 2 = 1512"
  by (simp add: reset_def default_Limits_def computeIncrementalTimeLimits_def
        incremental_msPerMove_def spec_incremental_msPerMove_def GAME_LENGTH_FACTOR_def
        cdiv_def Let_def)

text \<open>
  C8, amended. For a remaining time \<open>T > 0\<close> (and a clock and budgets far from the
  64-bit range): in the incremental regime (base time set, no control moves) the
  per-move budget is \<open>min(increment + T/40, T)\<close>, the soft break is the start plus half
  of it and the hard break the start plus nine tenths of it (both rounded down); in the
  exact-per-move regime (increment only, base 0) the soft break is the start plus
  \<open>0.9 T\<close> and the hard break the start plus \<open>0.95 T\<close> (rounded down); and when the
  engine plays itself each of the two distances from the start is divided by ten, with a
  floor of 100 ms.
\<close>

theorem reset_budgets:
  assumes "0 \<le> now" "now < 2 ^ 62" "0 < T" "T < 2 ^ 48" "0 \<le> m_incTime l"
    "m_timeControlMoves l = 0"
  shows "(m_baseTime l \<noteq> 0 \<longrightarrow>
           (let perMove = min (m_incTime l + T div 40) T in
              m_softBreak (reset now False T l) = now + perMove div 2
            \<and> m_hardBreak (reset now False T l) = now + (perMove * 9) div 10
            \<and> m_softBreak (reset now True T l) = now + max (perMove div 2 div 10) 100
            \<and> m_hardBreak (reset now True T l) = now + max ((perMove * 9) div 10 div 10) 100))
    \<and> (m_baseTime l = 0 \<and> m_incTime l \<noteq> 0 \<longrightarrow>
              m_softBreak (reset now False T l) = now + (T * 9) div 10
            \<and> m_hardBreak (reset now False T l) = now + (T * 19) div 20
            \<and> m_softBreak (reset now True T l) = now + max ((T * 9) div 10 div 10) 100
            \<and> m_hardBreak (reset now True T l) = now + max ((T * 19) div 20 div 10) 100)"
proof (intro conjI impI)
  define p where "p = min (m_incTime l + T div 40) T"
  have p0: "0 \<le> p" and pT: "p \<le> T" using assms by (auto simp: p_def)
  have b1: "0 \<le> p div 2" "p div 2 < 2 ^ 62" using p0 pT assms by auto
  have b2: "0 \<le> (p * 9) div 10" "(p * 9) div 10 < 2 ^ 62" using p0 pT assms by auto
  assume base: "m_baseTime l \<noteq> 0"
  have s: "m_softBreak (reset now False T l) = now + p div 2"
    using p0 by (simp add: reset_incremental[OF assms(6) base] computeIncrementalTimeLimits_def
        Let_def incremental_budget assms p_def[symmetric] cdiv_nonneg)
  have h: "m_hardBreak (reset now False T l) = now + (p * 9) div 10"
    using p0 by (simp add: reset_incremental[OF assms(6) base] computeIncrementalTimeLimits_def
        Let_def incremental_budget assms p_def[symmetric] cdiv_nonneg times_0_9_def)
  have s': "m_softBreak (reset now True T l) = now + max (p div 2 div 10) 100"
    unfolding reset_self s using self_play_adjust[OF assms(1,2) b1] by simp
  have h': "m_hardBreak (reset now True T l) = now + max ((p * 9) div 10 div 10) 100"
    unfolding reset_self h using self_play_adjust[OF assms(1,2) b2] by simp
  show "let perMove = min (m_incTime l + T div 40) T in
              m_softBreak (reset now False T l) = now + perMove div 2
            \<and> m_hardBreak (reset now False T l) = now + (perMove * 9) div 10
            \<and> m_softBreak (reset now True T l) = now + max (perMove div 2 div 10) 100
            \<and> m_hardBreak (reset now True T l) = now + max ((perMove * 9) div 10 div 10) 100"
    unfolding Let_def p_def[symmetric] using s h s' h' by simp
next
  assume ex: "m_baseTime l = 0 \<and> m_incTime l \<noteq> 0"
  have b1: "0 \<le> (T * 9) div 10" "(T * 9) div 10 < 2 ^ 62" using assms by auto
  have b2: "0 \<le> (T * 19) div 20" "(T * 19) div 20 < 2 ^ 62" using assms by auto
  have r: "reset now False T l = computeExactTimePerMove T (l\<lparr>m_start := now\<rparr>)"
    using ex by (simp add: reset_exact)
  show s: "m_softBreak (reset now False T l) = now + (T * 9) div 10"
    using assms by (simp add: r computeExactTimePerMove_def Let_def times_0_9_def cdiv_nonneg)
  show h: "m_hardBreak (reset now False T l) = now + (T * 19) div 20"
    using assms by (simp add: r computeExactTimePerMove_def Let_def times_0_95_def cdiv_nonneg)
  show "m_softBreak (reset now True T l) = now + max ((T * 9) div 10 div 10) 100"
    unfolding reset_self s using self_play_adjust[OF assms(1,2) b1] by simp
  show "m_hardBreak (reset now True T l) = now + max ((T * 19) div 20 div 10) 100"
    unfolding reset_self h using self_play_adjust[OF assms(1,2) b2] by simp
qed

theorem reset_budgets_witness:
  "m_softBreak (reset 0 False 80000 default_Limits) = 2500
   \<and> m_hardBreak (reset 0 False 80000 default_Limits) = 4500
   \<and> m_softBreak (reset 0 True 80000 default_Limits) = 250
   \<and> m_hardBreak (reset 0 True 80000 default_Limits) = 450
   \<and> m_softBreak (reset 0 False 5000 (default_Limits\<lparr>m_baseTime := 0\<rparr>)) = 4500
   \<and> m_hardBreak (reset 0 False 5000 (default_Limits\<lparr>m_baseTime := 0\<rparr>)) = 4750
   \<and> m_softBreak (reset 0 True 5000 (default_Limits\<lparr>m_baseTime := 0\<rparr>)) = 450
   \<and> m_hardBreak (reset 0 True 5000 (default_Limits\<lparr>m_baseTime := 0\<rparr>)) = 475"
proof -
  have a: "(0::int) \<le> 0" "(0::int) < 2 ^ 62" "(0::int) < 80000" "(80000::int) < 2 ^ 48"
    "0 \<le> m_incTime default_Limits" "m_timeControlMoves default_Limits = 0"
    by (simp_all add: default_Limits_def)
  have b: "(0::int) < 5000" "(5000::int) < 2 ^ 48"
    "0 \<le> m_incTime (default_Limits\<lparr>m_baseTime := 0\<rparr>)"
    "m_timeControlMoves (default_Limits\<lparr>m_baseTime := 0\<rparr>) = 0"
    by (simp_all add: default_Limits_def)
  have c: "m_baseTime default_Limits \<noteq> 0" "m_incTime default_Limits = 3000"
    "m_baseTime (default_Limits\<lparr>m_baseTime := 0\<rparr>) = 0
       \<and> m_incTime (default_Limits\<lparr>m_baseTime := 0\<rparr>) \<noteq> 0"
    by (simp_all add: default_Limits_def)
  from reset_budgets [OF a(1,2,3,4,5,6), THEN conjunct1, rule_format, OF c(1)]
  have 1: "m_softBreak (reset 0 False 80000 default_Limits) = 2500
   \<and> m_hardBreak (reset 0 False 80000 default_Limits) = 4500
   \<and> m_softBreak (reset 0 True 80000 default_Limits) = 250
   \<and> m_hardBreak (reset 0 True 80000 default_Limits) = 450"
    by (simp add: c(2) Let_def)
  from reset_budgets [OF a(1,2) b(1,2,3,4), THEN conjunct2, rule_format, OF c(3)]
  have 2: "m_softBreak (reset 0 False 5000 (default_Limits\<lparr>m_baseTime := 0\<rparr>)) = 4500
   \<and> m_hardBreak (reset 0 False 5000 (default_Limits\<lparr>m_baseTime := 0\<rparr>)) = 4750
   \<and> m_softBreak (reset 0 True 5000 (default_Limits\<lparr>m_baseTime := 0\<rparr>)) = 450
   \<and> m_hardBreak (reset 0 True 5000 (default_Limits\<lparr>m_baseTime := 0\<rparr>)) = 475"
    by simp
  from 1 2 show ?thesis by blast
qed

section \<open>Evaluation of bit operations on numerals\<close>

text \<open>
  The rules below compute the bitwise operations on word numerals through the functions
  \<open>and_num\<close>, \<open>or_num\<close>, \<open>xor_num\<close> and \<open>and_not_num\<close> on binary numerals, and
  \<open>lsb\<close> of a literal bitboard through \<open>ctz2\<close>; they replace the default rewrite rules
  where a position is evaluated.
\<close>

lemma fw_and: "(numeral m :: 'a::len word) AND numeral n = (case and_num m n of None \<Rightarrow> 0 | Some k \<Rightarrow> numeral k)"
proof -
  have "(numeral m :: 'a word) AND numeral n = of_int (numeral m AND numeral n)"
    by (simp only: of_int_and_eq of_int_numeral)
  also have "\<dots> = (case and_num m n of None \<Rightarrow> 0 | Some k \<Rightarrow> numeral k)"
    by (simp add: numeral_and_num split: option.split del: and_numerals)
  finally show ?thesis .
qed

lemma fw_or: "(numeral m :: 'a::len word) OR numeral n = numeral (or_num m n)"
proof -
  have "(numeral m :: 'a word) OR numeral n = of_int (numeral m OR numeral n)"
    by (simp only: of_int_or_eq of_int_numeral)
  also have "\<dots> = numeral (or_num m n)"
    by (simp add: numeral_or_num del: or_numerals)
  finally show ?thesis .
qed

lemma fw_xor: "(numeral m :: 'a::len word) XOR numeral n = (case xor_num m n of None \<Rightarrow> 0 | Some k \<Rightarrow> numeral k)"
proof -
  have "(numeral m :: 'a word) XOR numeral n = of_int (numeral m XOR numeral n)"
    by (simp only: of_int_xor_eq of_int_numeral)
  also have "\<dots> = (case xor_num m n of None \<Rightarrow> 0 | Some k \<Rightarrow> numeral k)"
    by (simp add: numeral_xor_num split: option.split del: xor_numerals)
  finally show ?thesis .
qed

lemma fw_and_not: "(numeral m :: 'a::len word) AND NOT (numeral n) = (case and_not_num m n of None \<Rightarrow> 0 | Some k \<Rightarrow> numeral k)"
proof -
  have "(numeral m :: 'a word) AND NOT (numeral n) = of_int (numeral m AND NOT (numeral n))"
    by (simp only: of_int_and_eq of_int_not_eq of_int_numeral)
  also have "\<dots> = (case and_not_num m n of None \<Rightarrow> 0 | Some k \<Rightarrow> numeral k)"
    by (simp only: int_numeral_and_not_num) (simp split: option.split)
  finally show ?thesis .
qed

lemma fw_not_and: "NOT (numeral n) AND (numeral m :: 'a::len word) = (case and_not_num m n of None \<Rightarrow> 0 | Some k \<Rightarrow> numeral k)"
  by (simp only: and.commute [of "NOT (numeral n)"] fw_and_not)

lemma fw_and_not_1: "(numeral m :: 'a::len word) AND NOT 1 = (case and_not_num m num.One of None \<Rightarrow> 0 | Some k \<Rightarrow> numeral k)"
  using fw_and_not [of m num.One] by (simp only: numeral_One)

lemma fw_eq0_gen:
  assumes "(numeral M :: int) = mask LENGTH('a)"
  shows "(numeral k :: 'a::len word) = 0 \<longleftrightarrow> and_num k M = None"
proof -
  have "(numeral k :: 'a word) = 0 \<longleftrightarrow> uint (numeral k :: 'a word) = 0"
    by (simp only: uint_0_iff)
  also have "\<dots> \<longleftrightarrow> take_bit LENGTH('a) (numeral k :: int) = 0"
    by (simp only: uint_bintrunc)
  also have "\<dots> \<longleftrightarrow> (numeral k AND numeral M :: int) = 0"
    by (simp only: take_bit_eq_mask assms)
  also have "\<dots> \<longleftrightarrow> and_num k M = None"
    by (simp only: and_num_eq_None_iff [where ?'a = int])
  finally show ?thesis .
qed

lemma fw_drop_gen:
  assumes "(numeral M :: int) = mask LENGTH('a)"
  shows "drop_bit n (numeral k :: 'a::len word) =
   (case and_num k M of None \<Rightarrow> 0 | Some k' \<Rightarrow> word_of_int (drop_bit n (numeral k')))"
proof -
  have "uint (drop_bit n (numeral k :: 'a word)) = drop_bit n (take_bit LENGTH('a) (numeral k))"
    by (simp only: unsigned_drop_bit_eq uint_bintrunc take_bit_take_bit min.idem)
  then have "drop_bit n (numeral k :: 'a word) = word_of_int (drop_bit n (take_bit LENGTH('a) (numeral k)))"
    by (metis word_of_int_uint)
  also have "take_bit LENGTH('a) (numeral k :: int) = (numeral k AND numeral M :: int)"
    by (simp only: take_bit_eq_mask assms)
  also have "\<dots> = (case and_num k M of None \<Rightarrow> 0 | Some k' \<Rightarrow> numeral k')"
    by (simp only: numeral_and_num)
  finally show ?thesis by (simp split: option.split)
qed

lemma mask_literals:
  "(18446744073709551615 :: int) = mask LENGTH(64)"
  "(4294967295 :: int) = mask LENGTH(32)"
  "(65535 :: int) = mask LENGTH(16)"
  "(255 :: int) = mask LENGTH(8)"
  by (simp_all add: mask_eq_exp_minus_1)

lemmas fw_eq0 = fw_eq0_gen [OF mask_literals(1)] fw_eq0_gen [OF mask_literals(2)]
  fw_eq0_gen [OF mask_literals(3)] fw_eq0_gen [OF mask_literals(4)]
lemmas fw_0eq = fw_eq0 [unfolded eq_commute [of "numeral k" 0 for k]]
lemmas fw_drop = fw_drop_gen [OF mask_literals(1)] fw_drop_gen [OF mask_literals(2)]
  fw_drop_gen [OF mask_literals(3)] fw_drop_gen [OF mask_literals(4)]

lemma shift_eval:
  "shift b UP = push_bit 8 b AND 0xFFFFFFFFFFFFFFFF"
  "shift b LEFT = drop_bit 1 b AND 0x7F7F7F7F7F7F7F7F"
  "shift b RIGHT = push_bit 1 b AND 0xFEFEFEFEFEFEFEFE"
  "shift b UPRIGHT = push_bit 9 b AND 0xFEFEFEFEFEFEFEFE"
  "shift b UPLEFT = push_bit 7 b AND 0x7F7F7F7F7F7F7F7F"
  "shift b DOWNRIGHT = drop_bit 7 b AND 0xFEFEFEFEFEFEFEFE"
  "shift b DOWNLEFT = drop_bit 9 b AND 0x7F7F7F7F7F7F7F7F"
proof -
  have a: "NOT (fromFile 0) = (0xFEFEFEFEFEFEFEFE :: 64 word)"
    by (simp add: fromFile_def FILE_A_def)
  have h: "NOT (fromFile 7) = (0x7F7F7F7F7F7F7F7F :: 64 word)"
    by (simp add: fromFile_def FILE_A_def)
  have m: "(0xFFFFFFFFFFFFFFFF :: 64 word) = - 1" by simp
  show "shift b UP = push_bit 8 b AND 0xFFFFFFFFFFFFFFFF" unfolding m by simp
  show "shift b LEFT = drop_bit 1 b AND 0x7F7F7F7F7F7F7F7F" by (simp only: shift.simps h)
  show "shift b RIGHT = push_bit 1 b AND 0xFEFEFEFEFEFEFEFE" by (simp only: shift.simps a)
  show "shift b UPRIGHT = push_bit 9 b AND 0xFEFEFEFEFEFEFEFE" by (simp only: shift.simps a)
  show "shift b UPLEFT = push_bit 7 b AND 0x7F7F7F7F7F7F7F7F" by (simp only: shift.simps h)
  show "shift b DOWNRIGHT = drop_bit 7 b AND 0xFEFEFEFEFEFEFEFE" by (simp only: shift.simps a)
  show "shift b DOWNLEFT = drop_bit 9 b AND 0x7F7F7F7F7F7F7F7F" by (simp only: shift.simps h)
qed

lemma lsb_bit: "w \<noteq> 0 \<Longrightarrow> bit w (lsb w)" for w :: BitBoard
proof -
  assume "w \<noteq> 0"
  then obtain i where i: "bit w i" by (auto simp: bit_eq_iff)
  then have "i < 64" by (auto dest: bit_imp_le_length)
  with i have "\<exists>j \<in> set [0..<64]. bit w j" by auto
  then obtain j where fj: "find (bit w) [0..<64] = Some j"
    by (cases "find (bit w) [0..<64]") (auto simp: find_None_iff)
  then have "bit w j" by (auto simp: find_Some_iff)
  with fj show ?thesis by (simp add: lsb_def)
qed

lemma lsb_eqI:
  fixes w :: BitBoard
  assumes "bit w k" and "\<And>j. j < k \<Longrightarrow> \<not> bit w j"
  shows "lsb w = k"
proof -
  from assms(1) have k: "k < 64" by (auto dest: bit_imp_le_length)
  have "find (bit w) [0..<64] = Some k"
    unfolding find_Some_iff
  proof (intro exI [of _ k] conjI allI impI)
    show "k < length [0..<64]" using k by simp
    show "bit w ([0..<64] ! k)" using k assms(1) by simp
    show "k = [0..<64] ! k" using k by simp
    show "\<not> bit w ([0..<64] ! j)" if "j < k" for j using that k assms(2) by simp
  qed
  then show ?thesis by (simp add: lsb_def)
qed

lemma lsb_zero: "lsb 0 = 64"
proof -
  have "find (bit (0 :: BitBoard)) [0..<64] = None"
    unfolding find_None_iff by simp
  then show ?thesis by (simp only: lsb_def option.case)
qed

lemma lsb_less: "w \<noteq> 0 \<Longrightarrow> lsb w < 64" for w :: BitBoard
  using lsb_bit [of w] by (auto dest: bit_imp_le_length)

lemma lsb_least: "j < lsb w \<Longrightarrow> \<not> bit w j" for w :: BitBoard
proof (cases "find (bit w) [0..<64]")
  case None
  then have n: "\<forall>i<64. \<not> bit w i" by (auto simp: find_None_iff)
  show ?thesis
  proof
    assume bj: "bit w j"
    then have "j < LENGTH(64)" by (rule bit_imp_le_length)
    then have "j < 64" by simp
    with n bj show False by blast
  qed
next
  case (Some k)
  assume j: "j < lsb w"
  from Some have "lsb w = k" by (simp add: lsb_def)
  with Some j show ?thesis by (auto simp: find_Some_iff)
qed

lemma lsb_double: "lsb (2 * x) = min 64 (Suc (lsb x))" for x :: BitBoard
proof (cases "x = 0")
  case True
  then show ?thesis by (simp add: lsb_zero)
next
  case False
  note b = lsb_bit [OF False] and l = lsb_less [OF False]
  show ?thesis
  proof (cases "lsb x = 63")
    case True
    have "2 * x = 0"
    proof (rule bit_eqI)
      fix n
      assume "possible_bit TYPE(BitBoard) n"
      then have n: "n < 64" by (simp add: possible_bit_def)
      show "bit (2 * x) n \<longleftrightarrow> bit (0 :: BitBoard) n"
      proof (cases n)
        case 0
        then show ?thesis by (simp add: bit_0)
      next
        case (Suc m)
        with n have "m < 63" by simp
        with True have "\<not> bit x m" by (simp add: lsb_least)
        with Suc show ?thesis by (simp add: bit_double_iff)
      qed
    qed
    with True show ?thesis by (simp add: lsb_zero)
  next
    case False
    with l have k: "Suc (lsb x) < 64" by simp
    have "lsb (2 * x) = Suc (lsb x)"
    proof (rule lsb_eqI)
      show "bit (2 * x) (Suc (lsb x))" using b k by (simp add: bit_double_iff possible_bit_def)
      show "\<not> bit (2 * x) j" if "j < Suc (lsb x)" for j
      proof (cases j)
        case 0
        then show ?thesis by (simp add: bit_0)
      next
        case (Suc m)
        with that have "m < lsb x" by simp
        then have "\<not> bit x m" by (rule lsb_least)
        with Suc show ?thesis by (simp add: bit_double_iff)
      qed
    qed
    with k show ?thesis by simp
  qed
qed

lemma lsb_odd: "bit x 0 \<Longrightarrow> lsb x = 0" for x :: BitBoard
  by (rule lsb_eqI) simp_all

lemma ctz2_ge: "2 \<le> ctz2 k"
  by (induction k) simp_all

lemma lsb_numeral: "lsb (numeral k :: BitBoard) = min 64 (ctz2 k - 2)"
proof (induction k)
  case One
  show ?case by (simp add: lsb_odd bit_0)
next
  case (Bit0 k)
  have e: "(numeral (num.Bit0 k) :: BitBoard) = 2 * numeral k"
    by (rule numeral_Bit0_eq_double)
  have "lsb (numeral (num.Bit0 k) :: BitBoard) = lsb (2 * numeral k :: BitBoard)"
    by (rule arg_cong [OF e])
  also have "\<dots> = min 64 (Suc (min 64 (ctz2 k - 2)))"
    by (simp only: lsb_double Bit0.IH)
  also have "\<dots> = min 64 (ctz2 (num.Bit0 k) - 2)"
    using ctz2_ge [of k] by (simp only: ctz2.simps)
  finally show ?case .
next
  case (Bit1 k)
  show ?case by (simp add: lsb_odd bit_0)
qed

lemma lsb_one: "lsb 1 = 0"
  by (simp add: lsb_odd bit_0)

lemma let_weak_cong: "a = b \<Longrightarrow> Let a t = Let b t" by simp

lemma word_le_1_eval:
  "(w :: 'a::len word) \<le> 1 \<longleftrightarrow> unat w \<le> 1"
  "1 \<le> (w :: 'a::len word) \<longleftrightarrow> 1 \<le> unat w"
  "(w :: 'a::len word) < 1 \<longleftrightarrow> unat w < 1"
  "1 < (w :: 'a::len word) \<longleftrightarrow> 1 < unat w"
  by (simp_all add: word_le_nat_alt word_less_nat_alt)

lemmas fw = word_le_1_eval fw_and fw_or fw_xor fw_and_not fw_not_and fw_and_not_1 fw_eq0 fw_0eq fw_drop
  shift_eval lsb_numeral lsb_zero lsb_one
  numeral_and_num numeral_or_num numeral_xor_num
lemmas fw_del = and_numerals(3,4,6,7) or_numerals(3,4,6,7) xor_numerals(3,4,6,7)
  not_numeral_eq not_one_eq drop_bit_word_numeral drop_bit_word_Suc_numeral
  word_no_log_defs(1,3,7,11) word_bitwise_1_simps(1)
  word_eq_numeral_iff_iszero(9,10) shift.simps(1,3,4,5,6,7,8)

lemmas ev = fw Color_fromFENChar_def Piece_NONE_def getColor_def getType_def
  Piece_fromFENChar_def to_u8_def NO_POS_def Square_of_def getRank_def getFile_def forward_def
  backward_def File_fromFENChar_def Rank_fromFENChar_def tolower_def Square_fromChars_def
  makeRelativeRank_def makeRelativeSquare_def Square_getOpposite_def mirrorByFile_def
  File_distance_def Rank_distance_def Square_distance_def FILE_A_def RANK_1_def fromFile_def
  fromRank_def fromSquare_def goes_up_def slidingAttack_def test_def bb_set_def bb_clear_def
  hasMoreThanOne_def makeRelativeDirection_def Direction_iter_def directionBits_def
  betweenBits_def alignedBits_def areAligned_def pawnAttackedSquares_def pawnAttacks_def
  magic_mask_def magic_attacks_def pseudoAttacks_def attacksOf_def S_def Score_plus_def
  Score_minus_def middlegame_def endgame_def SIMPLIFIED_PIECE_VALUES_def PST_def MOVE_KEY_def
  NULL_MOVE_KEY_def hasCastleRight_def castleChange_def getCastleChangeMask_def
  bitMaskFromFENChar_def castlingInternalSquares_def StateInfo_init_def Board_init_def
  state_def map_state_def allPieces_def byPieceType_def pawns_def knights_def bishops_def
  rooks_def queens_def rooksAndQueens_def bishopsAndQueens_def king_def isInCheck_def
  hasNonPawns_def computeAttackersOf_def computeAllAttackersOf_def computeAttacksOf_def
  sniper_step_def updateInternalState_side_def updateInternalState_def initInternalState_def
  isDigit_def digit_of_def fromString_def fen_place_def fromFEN_def Move_of_def Move_simple_def
  makeNullMove_def isNullMove_def getFrom_def getTo_def getPromotedPiece_def getMoveType_def
  pushNextState_def change_of_def movePieceWithCapture_def unmovePieceWithCapture_def
  ep_capturedSq_def doEnpassant_def promotePawn_def promotePawnWithCapture_def
  unpromotePawnWithCapture_def doCastling_def update_repetitions_def makeMove_def
  unmakeMove_def lowMaterialDraw_def fiftyRuleDraw_def repetitionDraw_def isDraw_def
  isLegal_def xray_bishop_def xray_rook_def see_currentAttackers_def see_least_attacker_def
  see_uncovered_def SEE_def emplace_each_def promotions_to_def generatePieceMoves_def
  gen_king_def gen_promotions_def gen_pawn_captures_def gen_quiet_pawn_def gen_castlings_def
  generateMoves_side_def generateMoves_def makeMoveFromString_def Let_def

section \<open>FEN parsing: truncated input\<close>

text \<open>
  C3. Evaluation of \<open>fromFEN\<close> on the placement \<open>4k3/8/8/8/8/8/4R3/4K3\<close> with black to
  move, whose king on e8 is in check by the rook on e2 (square 12, bitboard 4096). Cut
  after the en-passant field, the string leaves \<open>fromFEN\<close> through the early return
  \<open>if (++i >= fen.size() - 1) return result\<close>: the out-parameter \<open>success\<close> keeps
  whatever the caller's variable held before the call, true or false, and the check
  givers stay empty although the rook attacks the king. With the two counters present
  the same position is reported as a success and the check givers are the rook's square.
\<close>

theorem fromFEN_truncated_skips_success_and_internal_state:
  "(case fromFEN z ''4k3/8/8/8/8/8/4R3/4K3 b - -'' True of (b, success) \<Rightarrow>
      success \<and> checkGivers (state b) = 0
      \<and> computeAttackersOf b WHITE (king b BLACK) (allPieces b) = 4096
      \<and> fiftyRule (state b) = 0 \<and> m_moveCount b = 1)
   \<and> snd (fromFEN z ''4k3/8/8/8/8/8/4R3/4K3 b - -'' False) = False
   \<and> (case fromFEN z ''4k3/8/8/8/8/8/4R3/4K3 b - - 0 1'' s of (b, success) \<Rightarrow>
      success \<and> checkGivers (state b) = 4096)"
  by (simp add: ev del: fw_del split del: if_split cong: let_weak_cong prod.case_cong_weak)

section \<open>Moves from strings: the promoted piece\<close>

lemma find_move_first_match:
  assumes "find (\<lambda>m. getFrom m = from \<and> getTo m = to) moves = Some m"
  shows "find_move b str from to moves =
     (if \<not> isLegal b m then makeNullMove
      else if getMoveType m = PROMOTION then
        Move_of from to PROMOTION
          (if length str > 4 then getType (Piece_fromFENChar (str ! 4)) else KNIGHT)
      else m)"
  using assms
proof (induction moves)
  case Nil
  then show ?case by simp
next
  case (Cons a moves)
  show ?case
  proof (cases "getFrom a = from \<and> getTo a = to")
    case True
    with Cons.prems have am: "a = m" by simp
    from True have "find_move b str from to (a # moves) =
       (if \<not> isLegal b a then makeNullMove
        else if getMoveType a = PROMOTION then
          Move_of from to PROMOTION
            (if length str > 4 then getType (Piece_fromFENChar (str ! 4)) else KNIGHT)
        else a)"
      by simp
    then show ?thesis unfolding am .
  next
    case False
    with Cons.prems have f: "find (\<lambda>m. getFrom m = from \<and> getTo m = to) moves = Some m"
      by auto
    from False have "find_move b str from to (a # moves) = find_move b str from to moves"
      by auto
    then show ?thesis by (simp only: Cons.IH [OF f])
  qed
qed

text \<open>
  C9. A string of four characters names the squares \<open>from\<close> and \<open>to\<close>. When \<open>from\<close>
  holds a piece of the side to move, \<open>to\<close> does not, and the move that the loop of
  \<open>makeMoveFromString\<close> matches, the first generated move with these two squares, is a
  legal promotion, the result is the promotion from \<open>from\<close> to \<open>to\<close> to a knight,
  whatever piece the matched move promotes to.
\<close>

theorem makeMoveFromString_promotes_to_knight:
  assumes "length str = 4"
    and "from = Square_fromChars (str ! 0) (str ! 1)"
    and "to = Square_fromChars (str ! 2) (str ! 3)"
    and "test (m_piecesByColor b (m_side b)) from"
    and "\<not> test (m_piecesByColor b (m_side b)) to"
    and "from \<noteq> to"
    and "find (\<lambda>m. getFrom m = from \<and> getTo m = to) (generateMoves ALL_MOVES b) = Some m"
    and "getMoveType m = PROMOTION"
    and "isLegal b m"
  shows "makeMoveFromString b str = Move_of from to PROMOTION KNIGHT"
proof -
  from assms(1) have "str \<noteq> ''0-0''" "str \<noteq> ''0-0-0''" by auto
  with assms(1-6) have
    "makeMoveFromString b str = find_move b str from to (generateMoves ALL_MOVES b)"
    by (simp add: makeMoveFromString_def)
  also have "\<dots> = Move_of from to PROMOTION KNIGHT"
    using assms(1,8,9) by (simp add: find_move_first_match [OF assms(7)])
  finally show ?thesis .
qed

text \<open>
  The position \<open>8/3P4/8/8/8/k7/8/1K6 w - - 0 1\<close> and the string \<open>d7d8\<close>: the generator
  emits the queen promotion first, and the move returned is the knight promotion.
\<close>

lemma promotion_position_facts:
  "case fromFEN z ''8/3P4/8/8/8/k7/8/1K6 w - - 0 1'' False of (b, ok) \<Rightarrow>
     test (m_piecesByColor b (m_side b)) 51
     \<and> \<not> test (m_piecesByColor b (m_side b)) 59
     \<and> find (\<lambda>m. getFrom m = 51 \<and> getTo m = 59) (generateMoves ALL_MOVES b)
          = Some (Move_of 51 59 PROMOTION QUEEN)
     \<and> isLegal b (Move_of 51 59 PROMOTION QUEEN)"
  by (simp add: ev del: fw_del split del: if_split cong: let_weak_cong prod.case_cong_weak)

lemma promotion_string_facts:
  "Square_fromChars (''d7d8'' ! 0) (''d7d8'' ! 1) = 51
   \<and> Square_fromChars (''d7d8'' ! 2) (''d7d8'' ! 3) = 59
   \<and> getMoveType (Move_of 51 59 PROMOTION QUEEN) = PROMOTION
   \<and> Move_of 51 59 PROMOTION QUEEN \<noteq> Move_of 51 59 PROMOTION KNIGHT"
  by (simp add: ev del: fw_del split del: if_split cong: let_weak_cong prod.case_cong_weak)

theorem makeMoveFromString_promotes_to_knight_witness:
  "\<forall>z. find (\<lambda>m. getFrom m = 51 \<and> getTo m = 59)
          (generateMoves ALL_MOVES (fst (fromFEN z ''8/3P4/8/8/8/k7/8/1K6 w - - 0 1'' False)))
        = Some (Move_of 51 59 PROMOTION QUEEN)
      \<and> makeMoveFromString (fst (fromFEN z ''8/3P4/8/8/8/k7/8/1K6 w - - 0 1'' False)) ''d7d8''
        = Move_of 51 59 PROMOTION KNIGHT"
proof
  fix z
  let ?b = "fst (fromFEN z ''8/3P4/8/8/8/k7/8/1K6 w - - 0 1'' False)"
  from promotion_position_facts [of z] have f:
    "test (m_piecesByColor ?b (m_side ?b)) 51"
    "\<not> test (m_piecesByColor ?b (m_side ?b)) 59"
    "find (\<lambda>m. getFrom m = 51 \<and> getTo m = 59) (generateMoves ALL_MOVES ?b)
       = Some (Move_of 51 59 PROMOTION QUEEN)"
    "isLegal ?b (Move_of 51 59 PROMOTION QUEEN)"
    by (simp_all add: case_prod_unfold)
  from promotion_string_facts have s:
    "51 = Square_fromChars (''d7d8'' ! 0) (''d7d8'' ! 1)"
    "59 = Square_fromChars (''d7d8'' ! 2) (''d7d8'' ! 3)"
    "getMoveType (Move_of 51 59 PROMOTION QUEEN) = PROMOTION"
    by simp_all
  have "makeMoveFromString ?b ''d7d8'' = Move_of 51 59 PROMOTION KNIGHT"
    by (rule makeMoveFromString_promotes_to_knight [OF _ s(1) s(2) f(1) f(2) _ f(3) s(3) f(4)])
      simp_all
  with f(3) show
    "find (\<lambda>m. getFrom m = 51 \<and> getTo m = 59) (generateMoves ALL_MOVES ?b)
        = Some (Move_of 51 59 PROMOTION QUEEN)
      \<and> makeMoveFromString ?b ''d7d8'' = Move_of 51 59 PROMOTION KNIGHT"
    by simp
qed

end
